theory Spec2Isabelle
  imports Main "HOL-Library.Char_ord" "HOL-Library.List_Lexorder"
begin

section \<open>The journal plugin of avocado (avocado/plugins/journal.py)\<close>

text \<open>
  The plugin records test life-cycle events in an SQLite file. The embedding follows the
  source method by method. Python values that reach the database are \<open>pyval\<close>; a
  method that can raise returns an \<open>outcome\<close> together with the world it leaves
  behind, since a Python exception does not undo the assignments and database operations
  made before it.
\<close>

subsection \<open>Python values, exceptions, dictionaries\<close>

datatype pyval = PyNone | PyStr string

datatype py_error =
    KeyError string
  | AttributeError string
  | OperationalError string
  | ProgrammingError string
  | IntegrityError string

datatype 'a outcome = Return 'a | Raise py_error

type_synonym test_state = "string \<rightharpoonup> pyval"

text \<open>\<^verbatim>\<open>state[k]\<close>: a missing key raises KeyError.\<close>

definition state_get :: "test_state \<Rightarrow> string \<Rightarrow> pyval outcome" where
  "state_get state k = (case state k of None \<Rightarrow> Raise (KeyError k) | Some v \<Rightarrow> Return v)"

subsection \<open>os.path.join (posixpath), two arguments\<close>

definition startswith :: "string \<Rightarrow> string \<Rightarrow> bool" where
  "startswith s p = (take (length p) s = p)"

definition endswith :: "string \<Rightarrow> string \<Rightarrow> bool" where
  "endswith s p = (length p \<le> length s \<and> drop (length s - length p) s = p)"

text \<open>
  \<^verbatim>\<open>
  def join(a, *p):
      path = a
      for b in p:
          if b.startswith('/'):   path = b
          elif path == '' or path.endswith('/'):  path += b
          else:  path += '/' + b
      return path
  \<close>
\<close>

definition os_path_join :: "string \<Rightarrow> string \<Rightarrow> string" where
  "os_path_join a b =
     (if startswith b ''/'' then b
      else if a = [] \<or> endswith a ''/'' then a @ b
      else a @ ''/'' @ b)"

subsection \<open>datetime: the clock reading and isoformat\<close>

record datetime =
  year :: nat
  month :: nat
  day :: nat
  hour :: nat
  minute :: nat
  second :: nat
  microsecond :: nat




text \<open>
  \<open>datetime.datetime(1, 1, 1)\<close> builds the first representable instant;
  \<open>now\<close> is a classmethod, so called through that instance it receives only the
  class and returns the reading of the local clock. The clock reading of a call is an input
  of the model.
\<close>

definition datetime_datetime :: "nat \<Rightarrow> nat \<Rightarrow> nat \<Rightarrow> datetime" where
  "datetime_datetime y m d =
     \<lparr>year = y, month = m, day = d, hour = 0, minute = 0, second = 0, microsecond = 0\<rparr>"

definition now :: "datetime \<Rightarrow> datetime \<Rightarrow> datetime" where
  "now receiver clock = clock"

definition digit_char :: "nat \<Rightarrow> char" where
  "digit_char n = char_of (48 + n)"

text \<open>\<^verbatim>\<open>'%d' % n\<close> for a natural number.\<close>

fun dec :: "nat \<Rightarrow> string" where
  "dec n = (if n < 10 then [digit_char n] else dec (n div 10) @ [digit_char (n mod 10)])"

declare dec.simps [simp del]

text \<open>\<^verbatim>\<open>'%0wd' % n\<close>: zeros on the left up to width w, never truncating.\<close>

definition fmt_0d :: "nat \<Rightarrow> nat \<Rightarrow> string" where
  "fmt_0d w n = replicate (w - length (dec n)) (CHR ''0'') @ dec n"

text \<open>
  \<^verbatim>\<open>
  def isoformat(self, sep='T'):
      s = ("%04d-%02d-%02d%c" % (self._year, self._month, self._day, sep) +
           _format_time(self._hour, self._minute, self._second, self._microsecond))
  def _format_time(hh, mm, ss, us):
      result = "%02d:%02d:%02d" % (hh, mm, ss)
      if us:  result += ".%06d" % us
      return result
  \<close>
  A naive datetime has no UTC offset to append.
\<close>

definition format_time :: "nat \<Rightarrow> nat \<Rightarrow> nat \<Rightarrow> nat \<Rightarrow> string" where
  "format_time hh mm ss us =
     fmt_0d 2 hh @ '':'' @ fmt_0d 2 mm @ '':'' @ fmt_0d 2 ss @
     (if us \<noteq> 0 then ''.'' @ fmt_0d 6 us else [])"

definition isoformat :: "datetime \<Rightarrow> string" where
  "isoformat d =
     fmt_0d 4 (year d) @ ''-'' @ fmt_0d 2 (month d) @ ''-'' @ fmt_0d 2 (day d) @ ''T'' @
     format_time (hour d) (minute d) (second d) (microsecond d)"

subsection \<open>The SQLite file, the connection and the statements the plugin issues\<close>

record journal_row =
  tag :: pyval
  time :: pyval
  action :: pyval
  status :: pyval
  flushed :: bool

text \<open>A table that does not exist is \<open>None\<close>; \<open>job_info\<close> has the one column unique_id.\<close>

record database =
  job_info :: "pyval list option"
  test_journal :: "journal_row list option"

definition empty_database :: database where
  "empty_database = \<lparr>job_info = None, test_journal = None\<rparr>"

text \<open>
  A connection of Python's sqlite3 module in its default isolation level: an INSERT opens
  a transaction whose changes only this connection sees (\<open>txn\<close>), \<open>commit\<close> writes
  them to the file, \<open>close\<close> drops them.
\<close>

record connection =
  conn_path :: string
  txn :: "database option"
  closed :: bool

datatype db_event = Connect string | Execute string "pyval list" | Commit | Close

text \<open>The attributes of a TestResultJournal; an attribute not yet assigned is \<open>None\<close>.
  The cursor is a handle on the connection and is assigned together with it.\<close>

record recorder =
  journal_initialized :: bool
  journal_path :: "string option"
  journal :: "connection option"

record world =
  self :: recorder
  files :: "string \<rightharpoonup> database"
  trace :: "db_event list"

definition JOURNAL_FILENAME :: string where
  "JOURNAL_FILENAME = ''.journal.sqlite''"

text \<open>SCHEMA is a dict; the loop over it is modelled in the order of the literal.\<close>

definition SCHEMA :: "(string \<times> string) list" where
  "SCHEMA =
     [(''job_info'', ''CREATE TABLE job_info (unique_id TEXT UNIQUE)''),
      (''test_journal'',
       ''CREATE TABLE test_journal (tag TEXT, time TEXT, action TEXT, status TEXT, flushed BOOLEAN DEFAULT 0)'')]"

definition pragma_table_info :: "string \<Rightarrow> string" where
  "pragma_table_info table = ''PRAGMA table_info('' @ [CHR 0x27] @ table @ [CHR 0x27] @ '')''"

definition select_unique_id :: string where
  "select_unique_id = ''SELECT unique_id FROM job_info''"

definition insert_job_info :: string where
  "insert_job_info = ''INSERT INTO job_info (unique_id) VALUES (?)''"

definition insert_test_journal :: string where
  "insert_test_journal =
     ''INSERT INTO test_journal (tag, time, action, status) VALUES (?, ?, ?, ?)''"

datatype stmt =
    PragmaTableInfo string
  | CreateJobInfo
  | CreateTestJournal
  | SelectUniqueId
  | InsertJobInfo
  | InsertTestJournal

text \<open>
  The statements the engine is asked to run are recognised by their text: the fragment of
  SQL this plugin uses. Any other text is outside the model and reported as an error.
\<close>

definition parse_sql :: "string \<Rightarrow> stmt option" where
  "parse_sql sql =
     (if startswith sql (''PRAGMA table_info('' @ [CHR 0x27]) \<and> endswith sql ([CHR 0x27] @ '')'')
        \<and> 21 \<le> length sql
      then Some (PragmaTableInfo (take (length sql - 21) (drop 19 sql)))
      else if sql = snd (SCHEMA ! 0) then Some CreateJobInfo
      else if sql = snd (SCHEMA ! 1) then Some CreateTestJournal
      else if sql = select_unique_id then Some SelectUniqueId
      else if sql = insert_job_info then Some InsertJobInfo
      else if sql = insert_test_journal then Some InsertTestJournal
      else None)"

text \<open>
  What a statement does to the database the connection sees, and the rows it returns.
  The flushed column is not named by the INSERT, so it takes its DEFAULT 0.
\<close>

fun run_stmt :: "stmt \<Rightarrow> pyval list \<Rightarrow> database \<Rightarrow> py_error + (database \<times> pyval list list)" where
  "run_stmt (PragmaTableInfo t) ps db =
     (if t = ''job_info'' \<and> job_info db \<noteq> None then
        Inr (db, [[PyStr ''unique_id'', PyStr ''TEXT'']])
      else if t = ''test_journal'' \<and> test_journal db \<noteq> None then
        Inr (db, [[PyStr ''tag'', PyStr ''TEXT''], [PyStr ''time'', PyStr ''TEXT''],
                  [PyStr ''action'', PyStr ''TEXT''], [PyStr ''status'', PyStr ''TEXT''],
                  [PyStr ''flushed'', PyStr ''BOOLEAN'']])
      else Inr (db, []))"
| "run_stmt CreateJobInfo ps db =
     (case job_info db of
        Some rows \<Rightarrow> Inl (OperationalError ''table job_info already exists'')
      | None \<Rightarrow> Inr (db\<lparr>job_info := Some []\<rparr>, []))"
| "run_stmt CreateTestJournal ps db =
     (case test_journal db of
        Some rows \<Rightarrow> Inl (OperationalError ''table test_journal already exists'')
      | None \<Rightarrow> Inr (db\<lparr>test_journal := Some []\<rparr>, []))"
| "run_stmt SelectUniqueId ps db =
     (case job_info db of
        None \<Rightarrow> Inl (OperationalError ''no such table: job_info'')
      | Some rows \<Rightarrow> Inr (db, map (\<lambda>v. [v]) rows))"
| "run_stmt InsertJobInfo ps db =
     (case job_info db of
        None \<Rightarrow> Inl (OperationalError ''no such table: job_info'')
      | Some rows \<Rightarrow>
          (case ps of
             [v] \<Rightarrow>
               (if v \<noteq> PyNone \<and> v \<in> set rows
                then Inl (IntegrityError ''UNIQUE constraint failed: job_info.unique_id'')
                else Inr (db\<lparr>job_info := Some (rows @ [v])\<rparr>, []))
           | _ \<Rightarrow> Inl (ProgrammingError ''Incorrect number of bindings supplied.'')))"
| "run_stmt InsertTestJournal ps db =
     (case test_journal db of
        None \<Rightarrow> Inl (OperationalError ''no such table: test_journal'')
      | Some rows \<Rightarrow>
          (case ps of
             [a, b, c, d] \<Rightarrow>
               Inr (db\<lparr>test_journal :=
                        Some (rows @ [\<lparr>tag = a, time = b, action = c, status = d,
                                       flushed = False\<rparr>])\<rparr>, [])
           | _ \<Rightarrow> Inl (ProgrammingError ''Incorrect number of bindings supplied.'')))"

fun is_dml :: "stmt \<Rightarrow> bool" where
  "is_dml InsertJobInfo = True"
| "is_dml InsertTestJournal = True"
| "is_dml _ = False"

fun is_ddl :: "stmt \<Rightarrow> bool" where
  "is_ddl CreateJobInfo = True"
| "is_ddl CreateTestJournal = True"
| "is_ddl _ = False"

text \<open>The database a connection reads: its open transaction, else the file.\<close>

definition conn_view :: "connection \<Rightarrow> (string \<rightharpoonup> database) \<Rightarrow> database" where
  "conn_view c fs =
     (case txn c of
        Some d \<Rightarrow> d
      | None \<Rightarrow> (case fs (conn_path c) of Some d \<Rightarrow> d | None \<Rightarrow> empty_database))"

text \<open>\<open>sqlite3.connect(path)\<close>: opens the file, creating an empty database if absent.\<close>

definition sqlite3_connect :: "string \<Rightarrow> world \<Rightarrow> connection \<times> world" where
  "sqlite3_connect p w =
     (\<lparr>conn_path = p, txn = None, closed = False\<rparr>,
      w\<lparr>files := (case files w p of None \<Rightarrow> (files w)(p \<mapsto> empty_database) | Some d \<Rightarrow> files w),
        trace := trace w @ [Connect p]\<rparr>)"

text \<open>
  \<open>self.journal_cursor.execute(sql, params)\<close>. An INSERT runs inside the connection's
  transaction (opened if none is open). A CREATE TABLE commits what is pending and takes
  effect in the file at once. Reading the attribute before it was ever assigned raises
  AttributeError.
\<close>

definition cursor_execute :: "string \<Rightarrow> pyval list \<Rightarrow> world \<Rightarrow> pyval list list outcome \<times> world" where
  "cursor_execute sql ps w =
     (case journal (self w) of
        None \<Rightarrow> (Raise (AttributeError ''journal_cursor''), w)
      | Some c \<Rightarrow>
          if closed c then (Raise (ProgrammingError ''Cannot operate on a closed database.''), w)
          else
            (case parse_sql sql of
               None \<Rightarrow> (Raise (OperationalError ''statement outside the modelled fragment''), w)
             | Some s \<Rightarrow>
                 (let w1 = w\<lparr>trace := trace w @ [Execute sql ps]\<rparr> in
                  case run_stmt s ps (conn_view c (files w)) of
                    Inl e \<Rightarrow> (Raise e, w1)
                  | Inr (d, rows) \<Rightarrow>
                      if is_dml s then
                        (Return rows, w1\<lparr>self := (self w)\<lparr>journal := Some (c\<lparr>txn := Some d\<rparr>)\<rparr>\<rparr>)
                      else if is_ddl s then
                        (Return rows,
                         w1\<lparr>self := (self w)\<lparr>journal := Some (c\<lparr>txn := None\<rparr>)\<rparr>,
                            files := (files w)(conn_path c \<mapsto> d)\<rparr>)
                      else (Return rows, w1))))"

text \<open>\<open>res.fetchone()\<close>: the first row of the result, or None.\<close>

definition fetchone :: "pyval list list \<Rightarrow> pyval list option" where
  "fetchone rows = (case rows of [] \<Rightarrow> None | r # _ \<Rightarrow> Some r)"

text \<open>\<open>self.journal.commit()\<close>\<close>

definition journal_commit :: "world \<Rightarrow> unit outcome \<times> world" where
  "journal_commit w =
     (case journal (self w) of
        None \<Rightarrow> (Raise (AttributeError ''journal''), w)
      | Some c \<Rightarrow>
          if closed c then (Raise (ProgrammingError ''Cannot operate on a closed database.''), w)
          else
            (Return (),
             w\<lparr>files := (case txn c of None \<Rightarrow> files w | Some d \<Rightarrow> (files w)(conn_path c \<mapsto> d)),
               self := (self w)\<lparr>journal := Some (c\<lparr>txn := None\<rparr>)\<rparr>,
               trace := trace w @ [Commit]\<rparr>))"

text \<open>\<open>self.journal.close()\<close>\<close>

definition journal_close :: "world \<Rightarrow> unit outcome \<times> world" where
  "journal_close w =
     (case journal (self w) of
        None \<Rightarrow> (Raise (AttributeError ''journal''), w)
      | Some c \<Rightarrow>
          (Return (),
           w\<lparr>self := (self w)\<lparr>journal := Some (c\<lparr>txn := None, closed := True\<rparr>)\<rparr>,
             trace := trace w @ [Close]\<rparr>))"

subsection \<open>class TestResultJournal\<close>

text \<open>\<open>__init__\<close>: only the flag is assigned.\<close>

definition init :: recorder where
  "init = \<lparr>journal_initialized = False, journal_path = None, journal = None\<rparr>"

text \<open>\<open>SCHEMA[table]\<close>\<close>

definition SCHEMA_get :: "string \<Rightarrow> string outcome" where
  "SCHEMA_get table =
     (case map_of SCHEMA table of None \<Rightarrow> Raise (KeyError table) | Some sql \<Rightarrow> Return sql)"

text \<open>The loop \<open>for table in SCHEMA\<close> of \<open>_init_journal\<close>.\<close>

fun init_tables :: "string list \<Rightarrow> world \<Rightarrow> unit outcome \<times> world" where
  "init_tables [] w = (Return (), w)"
| "init_tables (table # rest) w =
     (case cursor_execute (pragma_table_info table) [] w of
        (Raise e, w1) \<Rightarrow> (Raise e, w1)
      | (Return res, w1) \<Rightarrow>
          if fetchone res = None then
            (case SCHEMA_get table of
               Raise e \<Rightarrow> (Raise e, w1)
             | Return sql \<Rightarrow>
                 (case cursor_execute sql [] w1 of
                    (Raise e, w2) \<Rightarrow> (Raise e, w2)
                  | (Return r, w2) \<Rightarrow> init_tables rest w2))
          else init_tables rest w1)"

text \<open>\<open>_init_journal(self, logdir)\<close>. A logdir that is None fails inside os.path.join.\<close>

definition init_journal :: "pyval \<Rightarrow> world \<Rightarrow> unit outcome \<times> world" where
  "init_journal logdir w =
     (case logdir of
        PyNone \<Rightarrow> (Raise (AttributeError ''endswith''), w)
      | PyStr dir \<Rightarrow>
          (let p = os_path_join dir JOURNAL_FILENAME;
               w1 = w\<lparr>self := (self w)\<lparr>journal_path := Some p\<rparr>\<rparr>;
               (c, w2) = sqlite3_connect p w1;
               w3 = w2\<lparr>self := (self w2)\<lparr>journal := Some c\<rparr>\<rparr>
           in case init_tables (map fst SCHEMA) w3 of
                (Raise e, w4) \<Rightarrow> (Raise e, w4)
              | (Return u, w4) \<Rightarrow> journal_commit w4))"

text \<open>\<open>_record_job_info(self, state)\<close>\<close>

definition record_job_info :: "test_state \<Rightarrow> world \<Rightarrow> unit outcome \<times> world" where
  "record_job_info state w =
     (case cursor_execute select_unique_id [] w of
        (Raise e, w1) \<Rightarrow> (Raise e, w1)
      | (Return res, w1) \<Rightarrow>
          if fetchone res = None then
            (case state_get state ''job_unique_id'' of
               Raise e \<Rightarrow> (Raise e, w1)
             | Return uid \<Rightarrow>
                 (case cursor_execute insert_job_info [uid] w1 of
                    (Raise e, w2) \<Rightarrow> (Raise e, w2)
                  | (Return r, w2) \<Rightarrow> journal_commit w2))
          else (Return (), w1))"

text \<open>\<open>lazy_init_journal(self, state)\<close>\<close>

definition lazy_init_journal :: "test_state \<Rightarrow> world \<Rightarrow> unit outcome \<times> world" where
  "lazy_init_journal state w =
     (if \<not> journal_initialized (self w) then
        (case state_get state ''job_logdir'' of
           Raise e \<Rightarrow> (Raise e, w)
         | Return logdir \<Rightarrow>
             (case init_journal logdir w of
                (Raise e, w1) \<Rightarrow> (Raise e, w1)
              | (Return u, w1) \<Rightarrow>
                  (case record_job_info state w1 of
                     (Raise e, w2) \<Rightarrow> (Raise e, w2)
                   | (Return u, w2) \<Rightarrow>
                       (Return (), w2\<lparr>self := (self w2)\<lparr>journal_initialized := True\<rparr>\<rparr>))))
      else (Return (), w))"

text \<open>\<open>_shutdown_journal(self)\<close>\<close>

definition shutdown_journal :: "world \<Rightarrow> unit outcome \<times> world" where
  "shutdown_journal w = journal_close w"

text \<open>
  \<open>_record_status(self, state, action)\<close>; \<open>clock\<close> is what the local clock reads
  during the call. Python evaluates \<open>self.journal_cursor.execute\<close> before the
  arguments of the call.
\<close>

definition record_status :: "datetime \<Rightarrow> test_state \<Rightarrow> string \<Rightarrow> world \<Rightarrow> unit outcome \<times> world" where
  "record_status clock state act w =
     (let sql = insert_test_journal in
      case (if act = ''ENDED'' then state_get state ''status'' else Return PyNone) of
        Raise e \<Rightarrow> (Raise e, w)
      | Return st \<Rightarrow>
          (case journal (self w) of
             None \<Rightarrow> (Raise (AttributeError ''journal_cursor''), w)
           | Some c \<Rightarrow>
               (case state_get state ''tagged_name'' of
                  Raise e \<Rightarrow> (Raise e, w)
                | Return tg \<Rightarrow>
                    (case cursor_execute sql
                            [tg, PyStr (isoformat (now (datetime_datetime 1 1 1) clock)),
                             PyStr act, st] w of
                       (Raise e, w1) \<Rightarrow> (Raise e, w1)
                     | (Return r, w1) \<Rightarrow> journal_commit w1))))"

text \<open>
  \<open>start_test\<close> and \<open>end_test\<close>. The methods of the base class TestResult belong to
  the reporting framework, whose code is not part of this plugin: \<open>super\<close> is what the
  base method does with the state, namely return or raise; it does not touch the journal.
\<close>

definition start_test ::
  "(test_state \<Rightarrow> py_error option) \<Rightarrow> datetime \<Rightarrow> test_state \<Rightarrow> world \<Rightarrow> unit outcome \<times> world" where
  "start_test super clock state w =
     (case lazy_init_journal state w of
        (Raise e, w1) \<Rightarrow> (Raise e, w1)
      | (Return u, w1) \<Rightarrow>
          (case super state of
             Some e \<Rightarrow> (Raise e, w1)
           | None \<Rightarrow> record_status clock state ''STARTED'' w1))"

definition end_test ::
  "(test_state \<Rightarrow> py_error option) \<Rightarrow> datetime \<Rightarrow> test_state \<Rightarrow> world \<Rightarrow> unit outcome \<times> world" where
  "end_test super clock state w =
     (case lazy_init_journal state w of
        (Raise e, w1) \<Rightarrow> (Raise e, w1)
      | (Return u, w1) \<Rightarrow>
          (case super state of
             Some e \<Rightarrow> (Raise e, w1)
           | None \<Rightarrow> record_status clock state ''ENDED'' w1))"

definition end_tests :: "world \<Rightarrow> unit outcome \<times> world" where
  "end_tests w = shutdown_journal w"

subsection \<open>Notifications and runs\<close>

text \<open>
  The framework's notifications, each with what the local clock reads while it is handled.
  \<open>run\<close> delivers a list of them one after the other to the same recorder; a
  notification that raises leaves the world it reached, and the next one starts from it.
\<close>

datatype notification = StartTest test_state datetime | EndTest test_state datetime | EndTests

fun notify ::
  "(test_state \<Rightarrow> py_error option) \<Rightarrow> (test_state \<Rightarrow> py_error option) \<Rightarrow>
   notification \<Rightarrow> world \<Rightarrow> unit outcome \<times> world" where
  "notify super_start super_end (StartTest state clock) w = start_test super_start clock state w"
| "notify super_start super_end (EndTest state clock) w = end_test super_end clock state w"
| "notify super_start super_end EndTests w = end_tests w"

fun run ::
  "(test_state \<Rightarrow> py_error option) \<Rightarrow> (test_state \<Rightarrow> py_error option) \<Rightarrow>
   notification list \<Rightarrow> world \<Rightarrow> world" where
  "run super_start super_end [] w = w"
| "run super_start super_end (n # ns) w =
     run super_start super_end ns (snd (notify super_start super_end n w))"

text \<open>A recorder just constructed, over the files \<open>fs\<close>.\<close>

definition fresh :: "(string \<rightharpoonup> database) \<Rightarrow> world" where
  "fresh fs = \<lparr>self = init, files = fs, trace = []\<rparr>"

subsection \<open>Notions used in the statements\<close>

text \<open>The rows of a table, none when the table does not exist.\<close>

definition table_rows :: "'a list option \<Rightarrow> 'a list" where
  "table_rows t = (case t of None \<Rightarrow> [] | Some rows \<Rightarrow> rows)"

text \<open>What a reader finds in the file at a path; a missing file reads as an empty database.\<close>

definition file_db :: "(string \<rightharpoonup> database) \<Rightarrow> string \<Rightarrow> database" where
  "file_db fs p = (case fs p of Some d \<Rightarrow> d | None \<Rightarrow> empty_database)"

text \<open>The database with both tables of SCHEMA present and every existing row kept.\<close>

definition with_schema :: "database \<Rightarrow> database" where
  "with_schema d = d\<lparr>job_info := Some (table_rows (job_info d)),
                      test_journal := Some (table_rows (test_journal d))\<rparr>"

text \<open>The statements of the schema loop over a database: per table the catalog query,
  followed by the CREATE TABLE exactly when the table is absent.\<close>

definition schema_trace :: "database \<Rightarrow> db_event list" where
  "schema_trace d =
     [Execute (pragma_table_info ''job_info'') []] @
     (if job_info d = None then [Execute (snd (SCHEMA ! 0)) []] else []) @
     [Execute (pragma_table_info ''test_journal'') []] @
     (if test_journal d = None then [Execute (snd (SCHEMA ! 1)) []] else [])"

text \<open>A connection as \<open>sqlite3.connect\<close> returns it.\<close>

definition connected :: "string \<Rightarrow> connection" where
  "connected p = \<lparr>conn_path = p, txn = None, closed = False\<rparr>"

abbreviation mk_world ::
  "bool \<Rightarrow> string option \<Rightarrow> connection option \<Rightarrow> (string \<rightharpoonup> database) \<Rightarrow>
   db_event list \<Rightarrow> world" where
  "mk_world b jp j fs tr \<equiv>
     \<lparr>self = \<lparr>journal_initialized = b, journal_path = jp, journal = j\<rparr>,
      files = fs, trace = tr\<rparr>"

subsection \<open>A concrete job, for the instances\<close>

definition example_path :: string where
  "example_path = ''/tmp/run1/.journal.sqlite''"

definition example_clock :: datetime where
  "example_clock =
     \<lparr>year = 2014, month = 6, day = 3, hour = 9, minute = 5, second = 7, microsecond = 0\<rparr>"

definition example_state :: test_state where
  "example_state =
     [''job_logdir'' \<mapsto> PyStr ''/tmp/run1'', ''job_unique_id'' \<mapsto> PyStr ''job-123'',
      ''tagged_name'' \<mapsto> PyStr ''testA'']"

definition example_db :: database where
  "example_db = \<lparr>job_info = Some [PyStr ''job-123''], test_journal = Some []\<rparr>"

text \<open>An Active recorder: initialized, with an open connection on the journal file.\<close>

definition example_active :: world where
  "example_active =
     mk_world True (Some example_path) (Some (connected example_path))
       [example_path \<mapsto> example_db] []"

subsection \<open>Invariant and step relation of the recorder\<close>

text \<open>
  Between two notifications the recorder is \<open>consistent\<close>: either it never connected
  (and is not initialized), or its connection has no open transaction, points at the path
  kept in \<open>journal_path\<close>, and the file there has both tables; once initialized, the
  job_info table is not empty.
\<close>

definition consistent :: "world \<Rightarrow> bool" where
  "consistent w =
     (case journal (self w) of
        None \<Rightarrow> \<not> journal_initialized (self w)
      | Some c \<Rightarrow>
          txn c = None \<and> journal_path (self w) = Some (conn_path c) \<and>
          job_info (file_db (files w) (conn_path c)) \<noteq> None \<and>
          test_journal (file_db (files w) (conn_path c)) \<noteq> None \<and>
          (journal_initialized (self w) \<longrightarrow>
             table_rows (job_info (file_db (files w) (conn_path c))) \<noteq> []))"

text \<open>
  How the content of one file may change while notifications are handled: tables are
  never dropped; job_info keeps its rows, or goes from no row to one row; test_journal
  keeps its rows and gains rows at the end, each with flushed false and a time that
  satisfies \<open>P\<close>.
\<close>

definition db_grows :: "(pyval \<Rightarrow> bool) \<Rightarrow> database \<Rightarrow> database \<Rightarrow> bool" where
  "db_grows P d d' =
     ((job_info d \<noteq> None \<longrightarrow> job_info d' \<noteq> None) \<and>
      (test_journal d \<noteq> None \<longrightarrow> test_journal d' \<noteq> None) \<and>
      (table_rows (job_info d') = table_rows (job_info d) \<or>
       table_rows (job_info d) = [] \<and> length (table_rows (job_info d')) = 1) \<and>
      take (length (table_rows (test_journal d))) (table_rows (test_journal d')) =
        table_rows (test_journal d) \<and>
      (\<forall>r \<in> set (drop (length (table_rows (test_journal d))) (table_rows (test_journal d'))).
         \<not> flushed r \<and> P (time r)))"

text \<open>The events a step adds to the trace.\<close>

definition new_events :: "world \<Rightarrow> world \<Rightarrow> db_event list" where
  "new_events w w' = drop (length (trace w)) (trace w')"

fun executes :: "string \<Rightarrow> db_event \<Rightarrow> bool" where
  "executes sql (Execute s ps) = (s = sql)"
| "executes sql e = False"

text \<open>A statement that changes or removes existing rows.\<close>

fun rewrites_rows :: "db_event \<Rightarrow> bool" where
  "rewrites_rows (Execute s ps) = (startswith s ''UPDATE'' \<or> startswith s ''DELETE'')"
| "rewrites_rows e = False"

text \<open>
  How the world may change: every file grows as above and none disappears; the trace is
  extended, by no statement that rewrites rows; and once the recorder is initialized it
  stays so, keeps its path and its connection's path, and only inserts journal rows,
  commits and closes.
\<close>

definition evolves :: "(pyval \<Rightarrow> bool) \<Rightarrow> world \<Rightarrow> world \<Rightarrow> bool" where
  "evolves P w w' =
     ((\<forall>p. db_grows P (file_db (files w) p) (file_db (files w') p)) \<and>
      (\<forall>p. files w p \<noteq> None \<longrightarrow> files w' p \<noteq> None) \<and>
      take (length (trace w)) (trace w') = trace w \<and>
      (\<forall>e \<in> set (new_events w w'). \<not> rewrites_rows e) \<and>
      (journal_initialized (self w) \<longrightarrow>
         journal_initialized (self w') \<and>
         journal_path (self w') = journal_path (self w) \<and>
         map_option conn_path (journal (self w')) = map_option conn_path (journal (self w)) \<and>
         (\<forall>e \<in> set (new_events w w').
            executes insert_test_journal e \<or> e = Commit \<or> e = Close)))"

text \<open>Recording the job: the id is inserted exactly when job_info has no row.\<close>

definition with_job :: "pyval \<Rightarrow> database \<Rightarrow> database" where
  "with_job uid d = (if table_rows (job_info d) = [] then d\<lparr>job_info := Some [uid]\<rparr> else d)"

definition job_trace :: "pyval \<Rightarrow> database \<Rightarrow> db_event list" where
  "job_trace uid d =
     Execute select_unique_id [] #
     (if table_rows (job_info d) = [] then [Execute insert_job_info [uid], Commit] else [])"

text \<open>The time a notification stamps on its row.\<close>

definition stamped :: "datetime \<Rightarrow> pyval \<Rightarrow> bool" where
  "stamped clk t = (t = PyStr (isoformat clk))"

fun clock_of :: "notification \<Rightarrow> datetime list" where
  "clock_of (StartTest state clk) = [clk]"
| "clock_of (EndTest state clk) = [clk]"
| "clock_of EndTests = []"


text \<open>A whole job: one test started and ended, then the run closed; the base-class
  methods return.\<close>

definition example_clock2 :: datetime where
  "example_clock2 =
     \<lparr>year = 2014, month = 6, day = 3, hour = 9, minute = 5, second = 9, microsecond = 250000\<rparr>"

definition example_run :: "notification list" where
  "example_run =
     [StartTest example_state example_clock,
      EndTest (example_state(''status'' \<mapsto> PyStr ''PASS'')) example_clock2,
      EndTests]"

definition no_super :: "test_state \<Rightarrow> py_error option" where
  "no_super state = None"

text \<open>The rows and events of the example job.\<close>

definition example_row1 :: journal_row where
  "example_row1 = \<lparr>tag = PyStr ''testA'', time = PyStr ''2014-06-03T09:05:07'',
                     action = PyStr ''STARTED'', status = PyNone, flushed = False\<rparr>"

definition example_row2 :: journal_row where
  "example_row2 = \<lparr>tag = PyStr ''testA'', time = PyStr ''2014-06-03T09:05:09.250000'',
                     action = PyStr ''ENDED'', status = PyStr ''PASS'', flushed = False\<rparr>"

definition example_init_trace :: "db_event list" where
  "example_init_trace =
     [Connect example_path,
      Execute (pragma_table_info ''job_info'') [],
      Execute ''CREATE TABLE job_info (unique_id TEXT UNIQUE)'' [],
      Execute (pragma_table_info ''test_journal'') [],
      Execute ''CREATE TABLE test_journal (tag TEXT, time TEXT, action TEXT, status TEXT, flushed BOOLEAN DEFAULT 0)'' [],
      Commit,
      Execute select_unique_id [],
      Execute insert_job_info [PyStr ''job-123''],
      Commit]"

definition example_run2 :: "notification list" where
  "example_run2 =
     [StartTest (example_state(''job_unique_id'' \<mapsto> PyStr ''job-456'')) example_clock2, EndTests]"

subsection \<open>Fixed-width decimal digits\<close>


text \<open>The rows of test_journal in the file at a path.\<close>

definition journal_rows :: "world \<Rightarrow> string \<Rightarrow> journal_row list" where
  "journal_rows w p = table_rows (test_journal (file_db (files w) p))"


section \<open>The statements and the engine, step by step\<close>

lemma parse_pragma: "parse_sql (pragma_table_info t) = Some (PragmaTableInfo t)"
  by (simp add: parse_sql_def pragma_table_info_def startswith_def endswith_def)

lemma parse_create_job_info: "parse_sql ''CREATE TABLE job_info (unique_id TEXT UNIQUE)'' = Some CreateJobInfo"
  by (simp add: parse_sql_def startswith_def endswith_def SCHEMA_def)

lemma parse_create_test_journal:
  "parse_sql ''CREATE TABLE test_journal (tag TEXT, time TEXT, action TEXT, status TEXT, flushed BOOLEAN DEFAULT 0)'' = Some CreateTestJournal"
  by (simp add: parse_sql_def startswith_def endswith_def SCHEMA_def)

lemma parse_select: "parse_sql select_unique_id = Some SelectUniqueId"
  by (simp add: parse_sql_def startswith_def endswith_def SCHEMA_def select_unique_id_def)

lemma parse_insert_job_info: "parse_sql insert_job_info = Some InsertJobInfo"
  by (simp add: parse_sql_def startswith_def endswith_def SCHEMA_def select_unique_id_def insert_job_info_def)

lemma parse_insert_test_journal: "parse_sql insert_test_journal = Some InsertTestJournal"
  by (simp add: parse_sql_def startswith_def endswith_def SCHEMA_def select_unique_id_def insert_job_info_def insert_test_journal_def)

lemma SCHEMA_get_job_info: "SCHEMA_get ''job_info'' = Return ''CREATE TABLE job_info (unique_id TEXT UNIQUE)''"
  by (simp add: SCHEMA_get_def SCHEMA_def)

lemma SCHEMA_get_test_journal: "SCHEMA_get ''test_journal'' = Return ''CREATE TABLE test_journal (tag TEXT, time TEXT, action TEXT, status TEXT, flushed BOOLEAN DEFAULT 0)''"
  by (simp add: SCHEMA_get_def SCHEMA_def)

lemma world_form:
  obtains b jp j fs tr where "w = mk_world b jp j fs tr"
  by (cases w, cases "self w") auto

lemma cursor_execute_open:
  "\<not> closed c \<Longrightarrow> parse_sql sql = Some s \<Longrightarrow>
   cursor_execute sql ps (mk_world b jp (Some c) fs tr) =
     (case run_stmt s ps (conn_view c fs) of
        Inl e \<Rightarrow> (Raise e, mk_world b jp (Some c) fs (tr @ [Execute sql ps]))
      | Inr (d, rows) \<Rightarrow>
          if is_dml s then
            (Return rows, mk_world b jp (Some (c\<lparr>txn := Some d\<rparr>)) fs (tr @ [Execute sql ps]))
          else if is_ddl s then
            (Return rows, mk_world b jp (Some (c\<lparr>txn := None\<rparr>)) (fs(conn_path c \<mapsto> d)) (tr @ [Execute sql ps]))
          else (Return rows, mk_world b jp (Some c) fs (tr @ [Execute sql ps])))"
  by (simp add: cursor_execute_def Let_def split: sum.splits)

lemma conn_txn_id: "txn c = None \<Longrightarrow> c\<lparr>txn := None\<rparr> = c"
  by (cases c) simp

lemma db_job_info_id: "job_info d = v \<Longrightarrow> d\<lparr>job_info := v\<rparr> = d"
  by (cases d) simp

lemma db_test_journal_id: "test_journal d = v \<Longrightarrow> d\<lparr>test_journal := v\<rparr> = d"
  by (cases d) simp

lemma with_schema_id:
  "job_info d \<noteq> None \<Longrightarrow> test_journal d \<noteq> None \<Longrightarrow> with_schema d = d"
  by (cases d) (auto simp: with_schema_def table_rows_def)

lemma init_tables_schema:
  assumes "\<not> closed c" "txn c = None" "fs (conn_path c) = Some d"
  shows "init_tables (map fst SCHEMA) (mk_world b jp (Some c) fs tr) =
      (Return (), mk_world b jp (Some c) (fs(conn_path c \<mapsto> with_schema d)) (tr @ schema_trace d))"
  using assms
  apply (cases "job_info d"; cases "test_journal d")
  apply (simp_all add: SCHEMA_def cursor_execute_open parse_pragma parse_create_job_info parse_create_test_journal
      SCHEMA_get_job_info SCHEMA_get_test_journal fetchone_def schema_trace_def with_schema_def table_rows_def
      conn_view_def conn_txn_id)
   apply (simp_all add: db_job_info_id db_test_journal_id map_upd_triv)
  done

lemma connect_exact:
  "sqlite3_connect p (mk_world b jp j fs tr) =
     (connected p, mk_world b jp j (fs(p \<mapsto> file_db fs p)) (tr @ [Connect p]))"
  by (auto simp: sqlite3_connect_def connected_def file_db_def map_upd_triv split: option.splits)

lemma commit_exact:
  "\<not> closed c \<Longrightarrow>
   journal_commit (mk_world b jp (Some c) fs tr) =
     (Return (), mk_world b jp (Some (c\<lparr>txn := None\<rparr>))
                   (case txn c of None \<Rightarrow> fs | Some d \<Rightarrow> fs(conn_path c \<mapsto> d)) (tr @ [Commit]))"
  by (simp add: journal_commit_def split: option.splits)

lemma init_journal_exact:
  "init_journal (PyStr dir) (mk_world b jp j fs tr) =
     (Return (),
      mk_world b (Some (os_path_join dir JOURNAL_FILENAME))
        (Some (connected (os_path_join dir JOURNAL_FILENAME)))
        (fs(os_path_join dir JOURNAL_FILENAME \<mapsto> with_schema (file_db fs (os_path_join dir JOURNAL_FILENAME))))
        (tr @ [Connect (os_path_join dir JOURNAL_FILENAME)] @
           schema_trace (file_db fs (os_path_join dir JOURNAL_FILENAME)) @ [Commit]))"
proof -
  let ?p = "os_path_join dir JOURNAL_FILENAME"
  have c: "\<not> closed (connected ?p)" "txn (connected ?p) = None" "conn_path (connected ?p) = ?p"
    by (simp_all add: connected_def)
  have t: "init_tables (map fst SCHEMA) (mk_world b (Some ?p) (Some (connected ?p)) (fs(?p \<mapsto> file_db fs ?p)) tr') =
      (Return (), mk_world b (Some ?p) (Some (connected ?p)) (fs(?p \<mapsto> with_schema (file_db fs ?p))) (tr' @ schema_trace (file_db fs ?p)))" for tr'
    using init_tables_schema [where c = "connected ?p" and fs = "fs(?p \<mapsto> file_db fs ?p)" and d = "file_db fs ?p"
        and b = b and jp = "Some ?p" and tr = tr']
    by (simp add: c)
  show ?thesis
    by (simp add: init_journal_def Let_def connect_exact t commit_exact c conn_txn_id)
qed

lemma record_status_exact:
  assumes "\<not> closed c" "conn_view c fs = d" "test_journal d = Some rows"
    "state ''tagged_name'' = Some tg"
    "(if act = ''ENDED'' then state ''status'' else Some PyNone) = Some sv"
  shows "record_status clk state act (mk_world b jp (Some c) fs tr) =
     (Return (),
      mk_world b jp (Some (c\<lparr>txn := None\<rparr>))
        (fs(conn_path c \<mapsto> d\<lparr>test_journal := Some (rows @
            [\<lparr>tag = tg, time = PyStr (isoformat clk), action = PyStr act, status = sv,
              flushed = False\<rparr>])\<rparr>))
        (tr @ [Execute insert_test_journal [tg, PyStr (isoformat clk), PyStr act, sv], Commit]))"
  using assms
  by (auto simp: record_status_def state_get_def cursor_execute_open parse_insert_test_journal
      commit_exact now_def split: if_splits)

lemma record_status_closed:
  assumes "closed c"
  shows "\<exists>e. record_status clk state act (mk_world b jp (Some c) fs tr) =
     (Raise e, mk_world b jp (Some c) fs tr)"
  using assms
  by (auto simp: record_status_def state_get_def cursor_execute_def split: option.splits)

lemma record_status_no_journal:
  "\<exists>e. record_status clk state act (mk_world b jp None fs tr) = (Raise e, mk_world b jp None fs tr)"
  by (auto simp: record_status_def state_get_def split: option.splits)

lemma record_status_missing_key:
  assumes "state ''tagged_name'' = None \<or> (act = ''ENDED'' \<and> state ''status'' = None)"
  shows "\<exists>e. record_status clk state act w = (Raise e, w)"
  using assms
  by (auto simp: record_status_def state_get_def split: option.splits)

lemma record_job_info_present:
  assumes "\<not> closed c" "conn_view c fs = d" "job_info d = Some (v # rows)"
  shows "record_job_info state (mk_world b jp (Some c) fs tr) =
     (Return (), mk_world b jp (Some c) fs (tr @ [Execute select_unique_id []]))"
  using assms
  by (simp add: record_job_info_def cursor_execute_open parse_select fetchone_def)

lemma record_job_info_insert:
  assumes "\<not> closed c" "conn_view c fs = d" "job_info d = Some []"
    "state ''job_unique_id'' = Some uid"
  shows "record_job_info state (mk_world b jp (Some c) fs tr) =
     (Return (), mk_world b jp (Some (c\<lparr>txn := None\<rparr>))
        (fs(conn_path c \<mapsto> d\<lparr>job_info := Some [uid]\<rparr>))
        (tr @ [Execute select_unique_id [], Execute insert_job_info [uid], Commit]))"
  using assms
  by (simp add: record_job_info_def cursor_execute_open parse_select fetchone_def state_get_def
      parse_insert_job_info commit_exact)

lemma record_job_info_missing_key:
  assumes "\<not> closed c" "conn_view c fs = d" "job_info d = Some []"
    "state ''job_unique_id'' = None"
  shows "record_job_info state (mk_world b jp (Some c) fs tr) =
     (Raise (KeyError ''job_unique_id''), mk_world b jp (Some c) fs (tr @ [Execute select_unique_id []]))"
  using assms
  by (simp add: record_job_info_def cursor_execute_open parse_select fetchone_def state_get_def)

lemma close_exact:
  "journal_close (mk_world b jp (Some c) fs tr) =
     (Return (), mk_world b jp (Some (c\<lparr>txn := None, closed := True\<rparr>)) fs (tr @ [Close]))"
  by (simp add: journal_close_def)

lemma start_test_initialized:
  "journal_initialized (self w) \<Longrightarrow>
   start_test super clk state w =
     (case super state of Some e \<Rightarrow> (Raise e, w) | None \<Rightarrow> record_status clk state ''STARTED'' w)"
  by (simp add: start_test_def lazy_init_journal_def)

lemma end_test_initialized:
  "journal_initialized (self w) \<Longrightarrow>
   end_test super clk state w =
     (case super state of Some e \<Rightarrow> (Raise e, w) | None \<Rightarrow> record_status clk state ''ENDED'' w)"
  by (simp add: end_test_def lazy_init_journal_def)

lemma record_status_open:
  assumes "journal (self w) = Some c" and "\<not> closed c"
    and "test_journal (conn_view c (files w)) = Some rows"
    and "state ''tagged_name'' = Some tg"
    and "(if act = ''ENDED'' then state ''status'' else Some PyNone) = Some sv"
  shows "record_status clk state act w =
     (Return (),
      w\<lparr>self := (self w)\<lparr>journal := Some (c\<lparr>txn := None\<rparr>)\<rparr>,
        files := (files w)(conn_path c \<mapsto> (conn_view c (files w))\<lparr>test_journal := Some (rows @
            [\<lparr>tag = tg, time = PyStr (isoformat clk), action = PyStr act, status = sv,
              flushed = False\<rparr>])\<rparr>),
        trace := trace w @
          [Execute insert_test_journal [tg, PyStr (isoformat clk), PyStr act, sv], Commit]\<rparr>)"
proof -
  obtain b jp j fs tr where w: "w = mk_world b jp j fs tr"
    by (rule world_form)
  with assms(1) have j: "j = Some c" by simp
  from assms(3) w have v: "test_journal (conn_view c fs) = Some rows" by simp
  show ?thesis
    unfolding w j
    by (simp add: record_status_exact [OF assms(2) refl v assms(4) assms(5)])
qed

lemma isoformat_example_clock: "isoformat example_clock = ''2014-06-03T09:05:07''"
  by code_simp

section \<open>One row and one commit per recorded event\<close>

text \<open>
  C1. Every call of \<open>_record_status\<close> on a recorder whose connection is open and
  sees the test_journal table (the calls that \<open>start_test\<close> and \<open>end_test\<close>
  make on an Active recorder, see \<open>start_test_initialized\<close> and
  \<open>end_test_initialized\<close>), with the keys it reads present in the state, returns
  normally; it issues one INSERT followed by one commit and nothing else; afterwards the
  file holds the rows the connection saw plus exactly one new row, the connection has no
  open transaction, and it reads exactly what is in the file.
\<close>

theorem record_status_one_row_committed:
  assumes "journal (self w) = Some c" and "\<not> closed c"
    and "test_journal (conn_view c (files w)) = Some rows"
    and "state ''tagged_name'' = Some tg"
    and "(if act = ''ENDED'' then state ''status'' else Some PyNone) = Some sv"
  shows "fst (record_status clk state act w) = Return () \<and>
     trace (snd (record_status clk state act w)) =
       trace w @ [Execute insert_test_journal [tg, PyStr (isoformat clk), PyStr act, sv], Commit] \<and>
     test_journal (file_db (files (snd (record_status clk state act w))) (conn_path c)) =
       Some (rows @ [\<lparr>tag = tg, time = PyStr (isoformat clk), action = PyStr act, status = sv,
                        flushed = False\<rparr>]) \<and>
     journal (self (snd (record_status clk state act w))) = Some (c\<lparr>txn := None\<rparr>) \<and>
     conn_view (c\<lparr>txn := None\<rparr>) (files (snd (record_status clk state act w))) =
       file_db (files (snd (record_status clk state act w))) (conn_path c)"
  by (simp add: record_status_open [OF assms] file_db_def conn_view_def)

theorem record_status_one_row_committed_witness:
  "fst (record_status example_clock example_state ''STARTED'' example_active) = Return () \<and>
   trace (snd (record_status example_clock example_state ''STARTED'' example_active)) =
     [Execute insert_test_journal
        [PyStr ''testA'', PyStr ''2014-06-03T09:05:07'', PyStr ''STARTED'', PyNone], Commit] \<and>
   test_journal (file_db (files (snd (record_status example_clock example_state ''STARTED''
       example_active))) example_path) =
     Some [\<lparr>tag = PyStr ''testA'', time = PyStr ''2014-06-03T09:05:07'',
            action = PyStr ''STARTED'', status = PyNone, flushed = False\<rparr>]"
  using record_status_one_row_committed [of example_active "connected example_path" "[]"
      example_state "PyStr ''testA''" "''STARTED''" PyNone example_clock]
  by (simp add: example_active_def connected_def conn_view_def example_db_def example_state_def
      isoformat_example_clock)

section \<open>Closing a recorder that never started a test\<close>

text \<open>
  C2. The claim is that \<open>end_tests\<close> on a recorder that never saw a test is a
  no-op that does not raise. In the code \<open>_shutdown_journal\<close> reads
  \<open>self.journal\<close>, which only \<open>_init_journal\<close> assigns: on a fresh
  recorder the call raises AttributeError, whatever files exist.
\<close>

theorem end_tests_uninitialized_raises:
  "end_tests (fresh fs) = (Raise (AttributeError ''journal''), fresh fs)"
  by (simp add: end_tests_def shutdown_journal_def journal_close_def fresh_def init_def)

section \<open>What a notification can change\<close>

lemma db_grows_refl: "db_grows P d d"
  by (simp add: db_grows_def)

lemma take_prefix_trans:
  assumes "take (length a) b = a" "take (length b) c = b"
  shows "take (length a) c = a"
proof -
  have "length a \<le> length b" using assms(1) by (metis length_take min.cobounded1)
  then have "take (length a) c = take (length a) (take (length b) c)" by simp
  then show ?thesis using assms by simp
qed

lemma drop_prefix_trans:
  assumes "take (length a) b = a" "take (length b) c = b"
  shows "drop (length a) c = drop (length a) b @ drop (length b) c"
proof -
  obtain x where b: "b = a @ x" using assms(1) by (metis append_take_drop_id)
  obtain y where c: "c = b @ y" using assms(2) by (metis append_take_drop_id)
  show ?thesis by (simp add: b c)
qed

lemma db_grows_trans:
  assumes "db_grows P d1 d2" "db_grows P d2 d3"
  shows "db_grows P d1 d3"
proof -
  let ?r1 = "table_rows (test_journal d1)" and ?r2 = "table_rows (test_journal d2)"
    and ?r3 = "table_rows (test_journal d3)"
  have t12: "take (length ?r1) ?r2 = ?r1" and t23: "take (length ?r2) ?r3 = ?r2"
    using assms by (simp_all add: db_grows_def)
  have d: "drop (length ?r1) ?r3 = drop (length ?r1) ?r2 @ drop (length ?r2) ?r3"
    by (rule drop_prefix_trans [OF t12 t23])
  have j: "table_rows (job_info d3) = table_rows (job_info d1) \<or>
       table_rows (job_info d1) = [] \<and> length (table_rows (job_info d3)) = 1"
    using assms unfolding db_grows_def by (elim conjE disjE) simp_all
  show ?thesis
    unfolding db_grows_def
    using assms take_prefix_trans [OF t12 t23] j
    by (auto simp: d db_grows_def)
qed

lemma evolves_refl: "evolves P w w"
  by (simp add: evolves_def db_grows_refl new_events_def)

lemma evolves_trans:
  assumes "evolves P w1 w2" "evolves P w2 w3"
  shows "evolves P w1 w3"
proof -
  have t12: "take (length (trace w1)) (trace w2) = trace w1"
    and t23: "take (length (trace w2)) (trace w3) = trace w2"
    using assms by (simp_all add: evolves_def)
  have n: "new_events w1 w3 = new_events w1 w2 @ new_events w2 w3"
    unfolding new_events_def by (rule drop_prefix_trans [OF t12 t23])
  have g: "db_grows P (file_db (files w1) p) (file_db (files w3) p)" for p
    using assms db_grows_trans unfolding evolves_def by blast
  have i: "journal_initialized (self w1) \<Longrightarrow> journal_initialized (self w2)"
    using assms(1) by (simp add: evolves_def)
  show ?thesis
    unfolding evolves_def
    using assms take_prefix_trans [OF t12 t23] g i
    by (auto simp: n evolves_def)
qed

lemma evolvesI:
  assumes "\<And>p. db_grows P (file_db fs p) (file_db fs' p)"
    and "\<And>p. fs p \<noteq> None \<Longrightarrow> fs' p \<noteq> None"
    and "\<forall>e \<in> set es. \<not> rewrites_rows e"
    and "b \<Longrightarrow> b' \<and> jp' = jp \<and> map_option conn_path j' = map_option conn_path j \<and>
           (\<forall>e \<in> set es. executes insert_test_journal e \<or> e = Commit \<or> e = Close)"
  shows "evolves P (mk_world b jp j fs tr) (mk_world b' jp' j' fs' (tr @ es))"
  using assms by (simp add: evolves_def new_events_def)

lemma db_grows_upd:
  assumes "db_grows P (file_db fs p) d'"
  shows "db_grows P (file_db fs q) (file_db (fs(p \<mapsto> d')) q)"
  using assms by (cases "q = p") (simp_all add: file_db_def db_grows_refl)

lemma db_grows_with_schema: "db_grows P d (with_schema d)"
  by (simp add: db_grows_def with_schema_def table_rows_def)

lemma db_grows_row:
  "test_journal d = Some rows \<Longrightarrow>
   db_grows (stamped clk) d (d\<lparr>test_journal := Some (rows @
      [\<lparr>tag = tg, time = PyStr (isoformat clk), action = a, status = sv, flushed = False\<rparr>])\<rparr>)"
  by (simp add: db_grows_def table_rows_def stamped_def)

lemma schema_trace_benign: "\<forall>e \<in> set (schema_trace d). \<not> rewrites_rows e"
  by (auto simp: schema_trace_def pragma_table_info_def SCHEMA_def startswith_def)

lemma record_status_step:
  assumes "consistent w"
  shows "consistent (snd (record_status clk state act w)) \<and>
         evolves (stamped clk) w (snd (record_status clk state act w))"
proof -
  obtain b jp j fs tr where w: "w = mk_world b jp j fs tr"
    by (rule world_form)
  show ?thesis
  proof (cases j)
    case None
    obtain e where "record_status clk state act w = (Raise e, w)"
      using record_status_no_journal [of clk state act b jp fs tr] None w by auto
    then show ?thesis using assms by (simp add: evolves_refl)
  next
    case (Some c)
    show ?thesis
    proof (cases "closed c \<or> state ''tagged_name'' = None \<or> (act = ''ENDED'' \<and> state ''status'' = None)")
      case True
      then obtain e where "record_status clk state act w = (Raise e, w)"
        using record_status_closed [of c clk state act b jp fs tr]
          record_status_missing_key [of state act clk w] Some w by auto
      then show ?thesis using assms by (simp add: evolves_refl)
    next
      case False
      then obtain tg sv where k: "state ''tagged_name'' = Some tg"
        "(if act = ''ENDED'' then state ''status'' else Some PyNone) = Some sv"
        by (cases "act = ''ENDED''") auto
      from assms w Some have c: "txn c = None" "jp = Some (conn_path c)"
        "job_info (file_db fs (conn_path c)) \<noteq> None"
        "b \<longrightarrow> table_rows (job_info (file_db fs (conn_path c))) \<noteq> []"
        by (simp_all add: consistent_def)
      from assms w Some obtain rows where r: "test_journal (file_db fs (conn_path c)) = Some rows"
        by (auto simp: consistent_def)
      have v: "conn_view c fs = file_db fs (conn_path c)"
        using c(1) by (simp add: conn_view_def file_db_def)
      have x: "record_status clk state act (mk_world b jp (Some c) fs tr) =
          (Return (), mk_world b jp (Some (c\<lparr>txn := None\<rparr>))
             (fs(conn_path c \<mapsto> (file_db fs (conn_path c))\<lparr>test_journal := Some (rows @
                [\<lparr>tag = tg, time = PyStr (isoformat clk), action = PyStr act, status = sv,
                  flushed = False\<rparr>])\<rparr>))
             (tr @ [Execute insert_test_journal [tg, PyStr (isoformat clk), PyStr act, sv], Commit]))"
        using record_status_exact [of c fs "file_db fs (conn_path c)" rows state tg act sv clk b jp tr]
          False v r k by simp
      have 1: "consistent (snd (record_status clk state act w))"
        unfolding w Some x
        using c by (simp add: consistent_def file_db_def table_rows_def)
      have 2: "evolves (stamped clk) w (snd (record_status clk state act w))"
        unfolding w Some x snd_conv
        by (rule evolvesI)
           (simp_all add: db_grows_upd db_grows_row r insert_test_journal_def startswith_def)
      show ?thesis using 1 2 by simp
    qed
  qed
qed

lemma close_step:
  assumes "consistent w"
  shows "consistent (snd (journal_close w)) \<and> evolves P w (snd (journal_close w))"
proof -
  obtain b jp j fs tr where w: "w = mk_world b jp j fs tr"
    by (rule world_form)
  show ?thesis
  proof (cases j)
    case None
    then show ?thesis using assms by (simp add: w journal_close_def evolves_refl)
  next
    case (Some c)
    have 1: "consistent (snd (journal_close w))"
      using assms by (simp add: w Some close_exact consistent_def)
    have 2: "evolves P w (snd (journal_close w))"
      unfolding w Some close_exact snd_conv
      by (rule evolvesI) (simp_all add: db_grows_refl)
    show ?thesis using 1 2 by simp
  qed
qed

lemma lazy_init_initialized:
  "journal_initialized (self w) \<Longrightarrow> lazy_init_journal state w = (Return (), w)"
  by (simp add: lazy_init_journal_def)

lemma lazy_init_no_logdir:
  assumes "\<not> journal_initialized (self w)"
    and "state ''job_logdir'' = None \<or> state ''job_logdir'' = Some PyNone"
  shows "\<exists>e. lazy_init_journal state w = (Raise e, w)"
  using assms by (auto simp: lazy_init_journal_def state_get_def init_journal_def)

lemma table_rows_simps: "table_rows None = []" "table_rows (Some rows) = rows"
  by (simp_all add: table_rows_def)

lemma with_schema_tables:
  "job_info (with_schema d) = Some (table_rows (job_info d))"
  "test_journal (with_schema d) = Some (table_rows (test_journal d))"
  by (simp_all add: with_schema_def)

lemma conn_view_connected: "conn_view (connected p) (fs(p \<mapsto> d)) = d"
  by (simp add: conn_view_def connected_def)

lemma connected_sel:
  "\<not> closed (connected p)" "txn (connected p) = None" "conn_path (connected p) = p"
  by (simp_all add: connected_def)

lemma lazy_init_exact:
  assumes "state ''job_logdir'' = Some (PyStr dir)" and "state ''job_unique_id'' = Some uid"
  shows "lazy_init_journal state (mk_world False jp j fs tr) =
     (Return (),
      mk_world True (Some (os_path_join dir JOURNAL_FILENAME))
        (Some (connected (os_path_join dir JOURNAL_FILENAME)))
        (fs(os_path_join dir JOURNAL_FILENAME \<mapsto>
              with_job uid (with_schema (file_db fs (os_path_join dir JOURNAL_FILENAME)))))
        (tr @ [Connect (os_path_join dir JOURNAL_FILENAME)] @
           schema_trace (file_db fs (os_path_join dir JOURNAL_FILENAME)) @ [Commit] @
           job_trace uid (file_db fs (os_path_join dir JOURNAL_FILENAME))))"
proof -
  let ?p = "os_path_join dir JOURNAL_FILENAME"
  let ?d = "file_db fs ?p"
  let ?c = "connected ?p"
  let ?fs1 = "fs(?p \<mapsto> with_schema ?d)"
  show ?thesis
  proof (cases "table_rows (job_info ?d)")
    case Nil
    have j: "job_info (with_schema ?d) = Some []"
      by (simp add: with_schema_tables Nil)
    have rj: "record_job_info state (mk_world False (Some ?p) (Some ?c) ?fs1 tr') =
       (Return (), mk_world False (Some ?p) (Some ?c)
          (fs(?p \<mapsto> (with_schema ?d)\<lparr>job_info := Some [uid]\<rparr>))
          (tr' @ [Execute select_unique_id [], Execute insert_job_info [uid], Commit]))" for tr'
      using record_job_info_insert [of ?c ?fs1 "with_schema ?d" state uid False "Some ?p" tr']
      by (simp add: connected_sel conn_view_connected j assms conn_txn_id)
    show ?thesis
      by (simp add: lazy_init_journal_def state_get_def assms init_journal_exact rj
          with_job_def job_trace_def Nil with_schema_tables table_rows_simps)
  next
    case (Cons v vs)
    have j: "job_info (with_schema ?d) = Some (v # vs)"
      by (simp add: with_schema_tables Cons)
    have rj: "record_job_info state (mk_world False (Some ?p) (Some ?c) ?fs1 tr') =
       (Return (), mk_world False (Some ?p) (Some ?c) ?fs1 (tr' @ [Execute select_unique_id []]))" for tr'
      using record_job_info_present [of ?c ?fs1 "with_schema ?d" v vs state False "Some ?p" tr']
      by (simp add: connected_sel conn_view_connected j)
    show ?thesis
      by (simp add: lazy_init_journal_def state_get_def assms init_journal_exact rj
          with_job_def job_trace_def Cons with_schema_tables table_rows_simps)
  qed
qed

lemma lazy_init_missing_uid:
  assumes "state ''job_logdir'' = Some (PyStr dir)" and "state ''job_unique_id'' = None"
  shows "lazy_init_journal state (mk_world False jp j fs tr) =
     ((if table_rows (job_info (file_db fs (os_path_join dir JOURNAL_FILENAME))) = []
       then Raise (KeyError ''job_unique_id'') else Return ()),
      mk_world (table_rows (job_info (file_db fs (os_path_join dir JOURNAL_FILENAME))) \<noteq> [])
        (Some (os_path_join dir JOURNAL_FILENAME))
        (Some (connected (os_path_join dir JOURNAL_FILENAME)))
        (fs(os_path_join dir JOURNAL_FILENAME \<mapsto>
              with_schema (file_db fs (os_path_join dir JOURNAL_FILENAME))))
        (tr @ [Connect (os_path_join dir JOURNAL_FILENAME)] @
           schema_trace (file_db fs (os_path_join dir JOURNAL_FILENAME)) @
           [Commit, Execute select_unique_id []]))"
proof -
  let ?p = "os_path_join dir JOURNAL_FILENAME"
  let ?d = "file_db fs ?p"
  let ?c = "connected ?p"
  let ?fs1 = "fs(?p \<mapsto> with_schema ?d)"
  show ?thesis
  proof (cases "table_rows (job_info ?d)")
    case Nil
    have j: "job_info (with_schema ?d) = Some []"
      by (simp add: with_schema_tables Nil)
    have rj: "record_job_info state (mk_world False (Some ?p) (Some ?c) ?fs1 tr') =
       (Raise (KeyError ''job_unique_id''),
        mk_world False (Some ?p) (Some ?c) ?fs1 (tr' @ [Execute select_unique_id []]))" for tr'
      using record_job_info_missing_key [of ?c ?fs1 "with_schema ?d" state False "Some ?p" tr']
      by (simp add: connected_sel conn_view_connected j assms)
    show ?thesis
      by (simp add: lazy_init_journal_def state_get_def assms init_journal_exact rj Nil)
  next
    case (Cons v vs)
    have j: "job_info (with_schema ?d) = Some (v # vs)"
      by (simp add: with_schema_tables Cons)
    have rj: "record_job_info state (mk_world False (Some ?p) (Some ?c) ?fs1 tr') =
       (Return (), mk_world False (Some ?p) (Some ?c) ?fs1 (tr' @ [Execute select_unique_id []]))" for tr'
      using record_job_info_present [of ?c ?fs1 "with_schema ?d" v vs state False "Some ?p" tr']
      by (simp add: connected_sel conn_view_connected j)
    show ?thesis
      by (simp add: lazy_init_journal_def state_get_def assms init_journal_exact rj Cons)
  qed
qed

lemma db_grows_with_job: "db_grows P d (with_job uid (with_schema d))"
  by (simp add: db_grows_def with_job_def with_schema_def table_rows_def)

lemma job_trace_benign: "\<forall>e \<in> set (job_trace uid d). \<not> rewrites_rows e"
  by (auto simp: job_trace_def select_unique_id_def insert_job_info_def startswith_def)

lemma lazy_init_step:
  assumes "consistent w"
  shows "consistent (snd (lazy_init_journal state w)) \<and>
         evolves P w (snd (lazy_init_journal state w)) \<and>
         (fst (lazy_init_journal state w) = Return () \<longrightarrow>
            journal_initialized (self (snd (lazy_init_journal state w))))"
proof -
  obtain b jp j fs tr where w: "w = mk_world b jp j fs tr"
    by (rule world_form)
  show ?thesis
  proof (cases b)
    case True
    then show ?thesis using assms by (simp add: w lazy_init_initialized evolves_refl)
  next
    case False
    then have b: "b = False" by simp
    show ?thesis
    proof (cases "state ''job_logdir''")
      case None
      then obtain e where "lazy_init_journal state w = (Raise e, w)"
        using lazy_init_no_logdir [of w state] b w by auto
      then show ?thesis using assms by (simp add: evolves_refl)
    next
      case (Some logdir)
      show ?thesis
      proof (cases logdir)
        case PyNone
        then obtain e where "lazy_init_journal state w = (Raise e, w)"
          using lazy_init_no_logdir [of w state] b w Some by auto
        then show ?thesis using assms by (simp add: evolves_refl)
      next
        case (PyStr dir)
        let ?p = "os_path_join dir JOURNAL_FILENAME"
        let ?d = "file_db fs ?p"
        have l: "state ''job_logdir'' = Some (PyStr dir)"
          using Some PyStr by simp
        show ?thesis
        proof (cases "state ''job_unique_id''")
          case None
          note x = lazy_init_missing_uid [OF l None, of jp j fs tr]
          have 1: "consistent (snd (lazy_init_journal state w))"
            unfolding w b x
            by (simp add: consistent_def connected_sel file_db_def with_schema_tables
                table_rows_simps)
          have 2: "evolves P w (snd (lazy_init_journal state w))"
            unfolding w b x snd_conv
            by (rule evolvesI)
               (simp_all add: db_grows_upd db_grows_with_schema schema_trace_benign
                  select_unique_id_def startswith_def)
          have 3: "fst (lazy_init_journal state w) = Return () \<longrightarrow>
              journal_initialized (self (snd (lazy_init_journal state w)))"
            unfolding w b x by simp
          show ?thesis using 1 2 3 by simp
        next
          case (Some uid)
          note x = lazy_init_exact [OF l Some, of jp j fs tr]
          have 1: "consistent (snd (lazy_init_journal state w))"
            unfolding w b x
            by (simp add: consistent_def connected_sel file_db_def with_schema_tables with_job_def
                table_rows_simps)
          have 2: "evolves P w (snd (lazy_init_journal state w))"
            unfolding w b x snd_conv
            by (rule evolvesI)
               (simp_all add: db_grows_upd db_grows_with_job schema_trace_benign job_trace_benign
                  ball_Un)
          have 3: "journal_initialized (self (snd (lazy_init_journal state w)))"
            unfolding w b x by simp
          show ?thesis using 1 2 3 by simp
        qed
      qed
    qed
  qed
qed

lemma start_test_step:
  assumes "consistent w"
  shows "consistent (snd (start_test super clk state w)) \<and>
         evolves (stamped clk) w (snd (start_test super clk state w))"
proof -
  let ?w1 = "snd (lazy_init_journal state w)"
  have 1: "consistent ?w1" "evolves (stamped clk) w ?w1"
    using lazy_init_step [OF assms, of state "stamped clk"] by simp_all
  have 2: "consistent (snd (record_status clk state ''STARTED'' ?w1))"
    "evolves (stamped clk) w (snd (record_status clk state ''STARTED'' ?w1))"
    using record_status_step [OF 1(1), of clk state "''STARTED''"] evolves_trans [OF 1(2)]
    by simp_all
  have "snd (start_test super clk state w) = ?w1 \<or>
        snd (start_test super clk state w) = snd (record_status clk state ''STARTED'' ?w1)"
    by (simp add: start_test_def split: prod.splits outcome.splits option.splits)
  then show ?thesis using 1 2 by auto
qed

lemma end_test_step:
  assumes "consistent w"
  shows "consistent (snd (end_test super clk state w)) \<and>
         evolves (stamped clk) w (snd (end_test super clk state w))"
proof -
  let ?w1 = "snd (lazy_init_journal state w)"
  have 1: "consistent ?w1" "evolves (stamped clk) w ?w1"
    using lazy_init_step [OF assms, of state "stamped clk"] by simp_all
  have 2: "consistent (snd (record_status clk state ''ENDED'' ?w1))"
    "evolves (stamped clk) w (snd (record_status clk state ''ENDED'' ?w1))"
    using record_status_step [OF 1(1), of clk state "''ENDED''"] evolves_trans [OF 1(2)]
    by simp_all
  have "snd (end_test super clk state w) = ?w1 \<or>
        snd (end_test super clk state w) = snd (record_status clk state ''ENDED'' ?w1)"
    by (simp add: end_test_def split: prod.splits outcome.splits option.splits)
  then show ?thesis using 1 2 by auto
qed

lemma notify_step:
  assumes "consistent w" and "\<forall>clk \<in> set (clock_of n). P = stamped clk"
  shows "consistent (snd (notify ss se n w)) \<and> evolves P w (snd (notify ss se n w))"
proof (cases n)
  case (StartTest state clk)
  then show ?thesis using assms start_test_step [OF assms(1)] by simp
next
  case (EndTest state clk)
  then show ?thesis using assms end_test_step [OF assms(1)] by simp
next
  case EndTests
  then show ?thesis using close_step [OF assms(1)] by (simp add: end_tests_def shutdown_journal_def)
qed

lemma db_grows_mono:
  assumes "db_grows P d d'" and "\<And>t. P t \<Longrightarrow> Q t"
  shows "db_grows Q d d'"
  using assms by (simp add: db_grows_def)

lemma evolves_mono:
  assumes "evolves P w w'" and "\<And>t. P t \<Longrightarrow> Q t"
  shows "evolves Q w w'"
proof -
  have "db_grows Q (file_db (files w) p) (file_db (files w') p)" for p
    using assms by (simp add: evolves_def db_grows_mono [where P = P and Q = Q])
  then show ?thesis using assms(1) by (simp add: evolves_def)
qed

lemma notify_advances:
  assumes "consistent w"
  shows "consistent (snd (notify ss se n w)) \<and> evolves (\<lambda>t. True) w (snd (notify ss se n w))"
proof -
  obtain P where "\<forall>clk \<in> set (clock_of n). P = stamped clk"
    by (cases n) auto
  from notify_step [OF assms this, of ss se]
  have 1: "consistent (snd (notify ss se n w))" and 2: "evolves P w (snd (notify ss se n w))"
    by simp_all
  from evolves_mono [OF 2, of "\<lambda>t. True"] 1 show ?thesis by simp
qed

lemma run_advances:
  assumes "consistent w"
  shows "consistent (run ss se ns w) \<and> evolves (\<lambda>t. True) w (run ss se ns w)"
  using assms
proof (induction ns arbitrary: w)
  case Nil
  then show ?case by (simp add: evolves_refl)
next
  case (Cons n ns)
  from notify_advances [OF Cons.prems, of ss se n]
  have 1: "consistent (snd (notify ss se n w))"
    and 2: "evolves (\<lambda>t. True) w (snd (notify ss se n w))" by simp_all
  from Cons.IH [OF 1] evolves_trans [OF 2] show ?case by simp
qed

lemma consistent_fresh: "consistent (fresh fs)"
  by (simp add: consistent_def fresh_def init_def)

lemma fresh_form: "fresh fs = mk_world False None None fs []"
  by (simp add: fresh_def init_def)

lemma first_notification_run:
  assumes "n = StartTest state clk \<or> n = EndTest state clk"
    and "state ''job_logdir'' = Some (PyStr dir)"
    and "state ''job_unique_id'' = Some uid"
  shows "consistent (run ss se (n # ns) (fresh fs)) \<and>
         evolves (\<lambda>t. True) (snd (lazy_init_journal state (fresh fs))) (run ss se (n # ns) (fresh fs))"
proof -
  let ?wi = "snd (lazy_init_journal state (fresh fs))"
  let ?w1 = "snd (notify ss se n (fresh fs))"
  have ci: "consistent ?wi"
    using lazy_init_step [OF consistent_fresh, where state = state and P = "\<lambda>t. True" and fs1 = fs]
    by simp
  have ri: "fst (lazy_init_journal state (fresh fs)) = Return ()"
    by (simp add: fresh_form lazy_init_exact [OF assms(2) assms(3)])
  have s: "snd (start_test ss clk state (fresh fs)) = ?wi \<or>
        snd (start_test ss clk state (fresh fs)) = snd (record_status clk state ''STARTED'' ?wi)"
    by (simp add: start_test_def split: prod.splits outcome.splits option.splits)
  have e: "snd (end_test se clk state (fresh fs)) = ?wi \<or>
        snd (end_test se clk state (fresh fs)) = snd (record_status clk state ''ENDED'' ?wi)"
    by (simp add: end_test_def split: prod.splits outcome.splits option.splits)
  have r: "consistent (snd (record_status clk state act ?wi)) \<and>
      evolves (stamped clk) ?wi (snd (record_status clk state act ?wi))" for act
    using record_status_step [OF ci, of clk state act] by simp
  have i: "consistent ?wi \<and> evolves (stamped clk) ?wi ?wi"
    using ci by (simp add: evolves_refl)
  from assms(1) have 1: "consistent ?w1 \<and> evolves (stamped clk) ?wi ?w1"
  proof
    assume n: "n = StartTest state clk"
    from s show ?thesis
      unfolding n notify.simps using i r [of "''STARTED''"] by (elim disjE) simp_all
  next
    assume n: "n = EndTest state clk"
    from e show ?thesis
      unfolding n notify.simps using i r [of "''ENDED''"] by (elim disjE) simp_all
  qed
  then have "evolves (stamped clk) ?wi ?w1" by simp
  then have e1: "evolves (\<lambda>t. True) ?wi ?w1"
    by (rule evolves_mono) simp
  from 1 have c1: "consistent ?w1" by simp
  from run_advances [OF c1, of ss se ns]
  have 2: "consistent (run ss se ns ?w1)" "evolves (\<lambda>t. True) ?w1 (run ss se ns ?w1)"
    by simp_all
  show ?thesis
    using 2(1) evolves_trans [OF e1 2(2)] by simp
qed

section \<open>Initialization happens once, on the first notification\<close>

text \<open>
  C7. A recorder just constructed receives a first notification (start or end of a test)
  whose state supplies the log directory and the job id, and then any further
  notifications. The trace of database events of the whole run begins with the
  initialization (connect to the journal file, the schema loop, its commit, the job-info
  query with its insert-if-absent) and everything after it is an insert into test_journal,
  a commit or the close: no later call connects again, touches the schema or records the
  job. The initialized flag is set and the connection stays the one on the journal file.
\<close>

theorem lazy_initialization_once:
  assumes "n = StartTest state clk \<or> n = EndTest state clk"
    and "state ''job_logdir'' = Some (PyStr dir)"
    and "state ''job_unique_id'' = Some uid"
  shows "journal_initialized (self (run ss se (n # ns) (fresh fs))) \<and>
     take (length ([Connect (os_path_join dir JOURNAL_FILENAME)] @
                   schema_trace (file_db fs (os_path_join dir JOURNAL_FILENAME)) @ [Commit] @
                   job_trace uid (file_db fs (os_path_join dir JOURNAL_FILENAME))))
          (trace (run ss se (n # ns) (fresh fs))) =
       [Connect (os_path_join dir JOURNAL_FILENAME)] @
       schema_trace (file_db fs (os_path_join dir JOURNAL_FILENAME)) @ [Commit] @
       job_trace uid (file_db fs (os_path_join dir JOURNAL_FILENAME)) \<and>
     (\<forall>e \<in> set (drop (length ([Connect (os_path_join dir JOURNAL_FILENAME)] @
                   schema_trace (file_db fs (os_path_join dir JOURNAL_FILENAME)) @ [Commit] @
                   job_trace uid (file_db fs (os_path_join dir JOURNAL_FILENAME))))
          (trace (run ss se (n # ns) (fresh fs)))).
        executes insert_test_journal e \<or> e = Commit \<or> e = Close) \<and>
     map_option conn_path (journal (self (run ss se (n # ns) (fresh fs)))) =
       Some (os_path_join dir JOURNAL_FILENAME)"
proof -
  note x = lazy_init_exact [OF assms(2) assms(3), of None None fs "[]"]
  from first_notification_run [OF assms, of ss se ns fs]
  have "evolves (\<lambda>t. True) (snd (lazy_init_journal state (fresh fs))) (run ss se (n # ns) (fresh fs))"
    by simp
  then show ?thesis
    unfolding fresh_form x snd_conv
    by (simp add: evolves_def new_events_def connected_sel)
qed

lemma os_path_join_relative:
  "b \<noteq> [] \<Longrightarrow> hd b \<noteq> CHR ''/'' \<Longrightarrow>
   os_path_join a b = (if a = [] \<or> last a = CHR ''/'' then a else a @ ''/'') @ b"
  by (cases b; cases a rule: rev_cases) (auto simp: os_path_join_def startswith_def endswith_def)

section \<open>The path of the journal file\<close>

text \<open>
  C8. After a first notification whose state supplies the log directory \<open>dir\<close>
  (and the job id), and whatever notifications follow, the recorder's journal path and
  its connection are at \<open>.journal.sqlite\<close> directly under \<open>dir\<close> (one
  separator, none added when \<open>dir\<close> is empty or already ends with one), the file
  exists, and this is what \<open>os.path.join\<close> of the directory and JOURNAL_FILENAME
  computes.
\<close>

theorem journal_path_under_logdir:
  assumes "n = StartTest state clk \<or> n = EndTest state clk"
    and "state ''job_logdir'' = Some (PyStr dir)"
    and "state ''job_unique_id'' = Some uid"
  shows "journal_path (self (run ss se (n # ns) (fresh fs))) =
           Some ((if dir = [] \<or> last dir = CHR ''/'' then dir else dir @ ''/'') @ ''.journal.sqlite'') \<and>
         map_option conn_path (journal (self (run ss se (n # ns) (fresh fs)))) =
           Some ((if dir = [] \<or> last dir = CHR ''/'' then dir else dir @ ''/'') @ ''.journal.sqlite'') \<and>
         files (run ss se (n # ns) (fresh fs))
           ((if dir = [] \<or> last dir = CHR ''/'' then dir else dir @ ''/'') @ ''.journal.sqlite'') \<noteq> None \<and>
         os_path_join dir JOURNAL_FILENAME =
           (if dir = [] \<or> last dir = CHR ''/'' then dir else dir @ ''/'') @ ''.journal.sqlite''"
proof -
  have j: "os_path_join dir JOURNAL_FILENAME =
      (if dir = [] \<or> last dir = CHR ''/'' then dir else dir @ ''/'') @ ''.journal.sqlite''"
    using os_path_join_relative [of JOURNAL_FILENAME dir] by (simp add: JOURNAL_FILENAME_def)
  note x = lazy_init_exact [OF assms(2) assms(3), of None None fs "[]"]
  from first_notification_run [OF assms, of ss se ns fs]
  have "evolves (\<lambda>t. True) (snd (lazy_init_journal state (fresh fs))) (run ss se (n # ns) (fresh fs))"
    by simp
  then have "journal_path (self (run ss se (n # ns) (fresh fs))) = Some (os_path_join dir JOURNAL_FILENAME) \<and>
         map_option conn_path (journal (self (run ss se (n # ns) (fresh fs)))) =
           Some (os_path_join dir JOURNAL_FILENAME) \<and>
         files (run ss se (n # ns) (fresh fs)) (os_path_join dir JOURNAL_FILENAME) \<noteq> None"
    unfolding fresh_form x snd_conv
    by (simp add: evolves_def connected_sel)
  then show ?thesis
    using j by simp
qed

section \<open>The journal only grows\<close>

text \<open>
  C9. From a consistent recorder (a new one over any files is), any run of notifications
  keeps every file, keeps every existing row of test_journal and of job_info at its place
  and unchanged, writes every new test_journal row with flushed false, and executes no
  UPDATE or DELETE statement.
\<close>

theorem journal_append_only:
  assumes "consistent w"
  shows "(\<forall>p. files w p \<noteq> None \<longrightarrow> files (run ss se ns w) p \<noteq> None) \<and>
     (\<forall>p. take (length (table_rows (test_journal (file_db (files w) p))))
             (table_rows (test_journal (file_db (files (run ss se ns w)) p))) =
           table_rows (test_journal (file_db (files w) p))) \<and>
     (\<forall>p. take (length (table_rows (job_info (file_db (files w) p))))
             (table_rows (job_info (file_db (files (run ss se ns w)) p))) =
           table_rows (job_info (file_db (files w) p))) \<and>
     (\<forall>p. \<forall>r \<in> set (drop (length (table_rows (test_journal (file_db (files w) p))))
                       (table_rows (test_journal (file_db (files (run ss se ns w)) p)))).
           \<not> flushed r) \<and>
     (\<forall>e \<in> set (new_events w (run ss se ns w)). \<not> rewrites_rows e)"
proof -
  from run_advances [OF assms, of ss se ns]
  have e: "evolves (\<lambda>t. True) w (run ss se ns w)" by simp
  have j: "take (length (table_rows (job_info (file_db (files w) p))))
             (table_rows (job_info (file_db (files (run ss se ns w)) p))) =
           table_rows (job_info (file_db (files w) p))" for p
    using e unfolding evolves_def db_grows_def by (elim conjE allE [of _ p] disjE) simp_all
  show ?thesis
    using e j by (simp add: evolves_def db_grows_def)
qed

lemma db_grows_job_le1:
  assumes "db_grows P d d'" and "length (table_rows (job_info d)) \<le> 1"
  shows "length (table_rows (job_info d')) \<le> 1 \<and>
         (table_rows (job_info d) \<noteq> [] \<longrightarrow> table_rows (job_info d') = table_rows (job_info d))"
  using assms unfolding db_grows_def by (elim conjE disjE) simp_all

section \<open>At most one row in job_info\<close>

text \<open>
  C5. If no journal file holds more than one job_info row, then after any run of
  notifications none does; a row that was there is still the only one; the same holds
  when a second recorder (a second job) then runs over the same files; and once the
  recorder is initialized its journal file holds exactly one job_info row.
\<close>

theorem job_info_at_most_one_row:
  assumes "consistent w"
    and "\<forall>p. length (table_rows (job_info (file_db (files w) p))) \<le> 1"
  shows "(\<forall>p. length (table_rows (job_info (file_db (files (run ss se ns w)) p))) \<le> 1) \<and>
     (\<forall>p. table_rows (job_info (file_db (files w) p)) \<noteq> [] \<longrightarrow>
           table_rows (job_info (file_db (files (run ss se ns w)) p)) =
           table_rows (job_info (file_db (files w) p))) \<and>
     (\<forall>p. length (table_rows (job_info (file_db
             (files (run ss' se' ns' ((run ss se ns w)\<lparr>self := init\<rparr>))) p))) \<le> 1) \<and>
     (journal_initialized (self (run ss se ns w)) \<longrightarrow>
        (case journal (self (run ss se ns w)) of
           None \<Rightarrow> False
         | Some c \<Rightarrow>
             length (table_rows (job_info (file_db (files (run ss se ns w)) (conn_path c)))) = 1))"
proof -
  let ?w1 = "run ss se ns w"
  let ?w2 = "?w1\<lparr>self := init\<rparr>"
  from run_advances [OF assms(1), of ss se ns]
  have c1: "consistent ?w1" and e1: "evolves (\<lambda>t. True) w ?w1" by simp_all
  have g1: "db_grows (\<lambda>t. True) (file_db (files w) p) (file_db (files ?w1) p)" for p
    using e1 by (simp add: evolves_def)
  have a: "length (table_rows (job_info (file_db (files ?w1) p))) \<le> 1" for p
    using db_grows_job_le1 [OF g1 [of p]] assms(2) by simp
  have b: "table_rows (job_info (file_db (files w) p)) \<noteq> [] \<longrightarrow>
           table_rows (job_info (file_db (files ?w1) p)) = table_rows (job_info (file_db (files w) p))" for p
    using db_grows_job_le1 [OF g1 [of p]] assms(2) by simp
  have c2: "consistent ?w2"
    by (simp add: consistent_def init_def)
  from run_advances [OF c2, of ss' se' ns']
  have e2: "evolves (\<lambda>t. True) ?w2 (run ss' se' ns' ?w2)" by simp
  have g2: "db_grows (\<lambda>t. True) (file_db (files ?w1) p) (file_db (files (run ss' se' ns' ?w2)) p)" for p
    using e2 by (simp add: evolves_def)
  have c: "length (table_rows (job_info (file_db (files (run ss' se' ns' ?w2)) p))) \<le> 1" for p
    using db_grows_job_le1 [OF g2 [of p]] a [of p] by simp
  have d: "journal_initialized (self ?w1) \<longrightarrow>
        (case journal (self ?w1) of None \<Rightarrow> False
         | Some c \<Rightarrow> length (table_rows (job_info (file_db (files ?w1) (conn_path c)))) = 1)"
  proof (cases "journal (self ?w1)")
    case None
    then show ?thesis using c1 by (simp add: consistent_def)
  next
    case (Some c)
    have "journal_initialized (self ?w1) \<longrightarrow>
        table_rows (job_info (file_db (files ?w1) (conn_path c))) \<noteq> []"
      using c1 Some by (simp add: consistent_def)
    moreover have "length (table_rows (job_info (file_db (files ?w1) (conn_path c)))) \<le> 1"
      by (rule a)
    ultimately show ?thesis
      using Some by (cases "table_rows (job_info (file_db (files ?w1) (conn_path c)))") auto
  qed
  show ?thesis
    using a b c d by simp
qed

section \<open>The example job, evaluated\<close>

lemma example_path_join: "os_path_join ''/tmp/run1'' JOURNAL_FILENAME = example_path"
  by (simp add: os_path_join_def JOURNAL_FILENAME_def example_path_def startswith_def endswith_def)

lemma digit_char_simps:
  "digit_char 0 = CHR ''0''" "digit_char 1 = CHR ''1''" "digit_char 2 = CHR ''2''"
  "digit_char 3 = CHR ''3''" "digit_char 4 = CHR ''4''" "digit_char 5 = CHR ''5''"
  "digit_char 6 = CHR ''6''" "digit_char 7 = CHR ''7''" "digit_char 8 = CHR ''8''"
  "digit_char 9 = CHR ''9''" "digit_char (Suc 0) = CHR ''1''"
  by code_simp+

lemma isoformat_example_clock2: "isoformat example_clock2 = ''2014-06-03T09:05:09.250000''"
  by (simp add: isoformat_def format_time_def fmt_0d_def dec.simps example_clock2_def
      digit_char_simps)

lemma example_lazy_init:
  "lazy_init_journal example_state (fresh Map.empty) =
     (Return (),
      mk_world True (Some example_path) (Some (connected example_path))
        [example_path \<mapsto> \<lparr>job_info = Some [PyStr ''job-123''], test_journal = Some []\<rparr>]
        example_init_trace)"
proof -
  have l: "example_state ''job_logdir'' = Some (PyStr ''/tmp/run1'')"
    and u: "example_state ''job_unique_id'' = Some (PyStr ''job-123'')"
    by (simp_all add: example_state_def)
  show ?thesis
    unfolding fresh_form lazy_init_exact [OF l u] example_path_join
    by (simp add: file_db_def empty_database_def with_schema_def with_job_def table_rows_def
        schema_trace_def job_trace_def SCHEMA_def example_init_trace_def)
qed

lemma example_start:
  "start_test no_super example_clock example_state (fresh Map.empty) =
     (Return (),
      mk_world True (Some example_path) (Some (connected example_path))
        [example_path \<mapsto> \<lparr>job_info = Some [PyStr ''job-123''], test_journal = Some [example_row1]\<rparr>]
        (example_init_trace @
         [Execute insert_test_journal
            [PyStr ''testA'', PyStr ''2014-06-03T09:05:07'', PyStr ''STARTED'', PyNone], Commit]))"
proof -
  let ?d = "\<lparr>job_info = Some [PyStr ''job-123''], test_journal = Some []\<rparr>"
  have r: "record_status example_clock example_state ''STARTED''
      (mk_world True (Some example_path) (Some (connected example_path)) [example_path \<mapsto> ?d]
         example_init_trace) =
     (Return (),
      mk_world True (Some example_path) (Some (connected example_path))
        [example_path \<mapsto> \<lparr>job_info = Some [PyStr ''job-123''], test_journal = Some [example_row1]\<rparr>]
        (example_init_trace @
         [Execute insert_test_journal
            [PyStr ''testA'', PyStr ''2014-06-03T09:05:07'', PyStr ''STARTED'', PyNone], Commit]))"
    using record_status_exact [of "connected example_path" "[example_path \<mapsto> ?d]" ?d "[]"
        example_state "PyStr ''testA''" "''STARTED''" PyNone example_clock True "Some example_path"
        example_init_trace]
    by (simp add: connected_sel conn_view_connected example_state_def isoformat_example_clock
        conn_txn_id example_row1_def)
  show ?thesis
    by (simp add: start_test_def example_lazy_init no_super_def r)
qed

lemma example_end:
  "end_test no_super example_clock2 (example_state(''status'' \<mapsto> PyStr ''PASS''))
      (mk_world True (Some example_path) (Some (connected example_path))
        [example_path \<mapsto> \<lparr>job_info = Some [PyStr ''job-123''], test_journal = Some [example_row1]\<rparr>]
        (example_init_trace @
         [Execute insert_test_journal
            [PyStr ''testA'', PyStr ''2014-06-03T09:05:07'', PyStr ''STARTED'', PyNone], Commit])) =
     (Return (),
      mk_world True (Some example_path) (Some (connected example_path))
        [example_path \<mapsto> \<lparr>job_info = Some [PyStr ''job-123''],
                               test_journal = Some [example_row1, example_row2]\<rparr>]
        (example_init_trace @
         [Execute insert_test_journal
            [PyStr ''testA'', PyStr ''2014-06-03T09:05:07'', PyStr ''STARTED'', PyNone], Commit,
          Execute insert_test_journal
            [PyStr ''testA'', PyStr ''2014-06-03T09:05:09.250000'', PyStr ''ENDED'', PyStr ''PASS''],
          Commit]))"
proof -
  let ?d = "\<lparr>job_info = Some [PyStr ''job-123''], test_journal = Some [example_row1]\<rparr>"
  let ?tr = "example_init_trace @
         [Execute insert_test_journal
            [PyStr ''testA'', PyStr ''2014-06-03T09:05:07'', PyStr ''STARTED'', PyNone], Commit]"
  have r: "record_status example_clock2 (example_state(''status'' \<mapsto> PyStr ''PASS'')) ''ENDED''
      (mk_world True (Some example_path) (Some (connected example_path)) [example_path \<mapsto> ?d] ?tr) =
     (Return (),
      mk_world True (Some example_path) (Some (connected example_path))
        [example_path \<mapsto> \<lparr>job_info = Some [PyStr ''job-123''],
                               test_journal = Some [example_row1, example_row2]\<rparr>]
        (?tr @ [Execute insert_test_journal
            [PyStr ''testA'', PyStr ''2014-06-03T09:05:09.250000'', PyStr ''ENDED'', PyStr ''PASS''],
          Commit]))"
    using record_status_exact [of "connected example_path" "[example_path \<mapsto> ?d]" ?d "[example_row1]"
        "example_state(''status'' \<mapsto> PyStr ''PASS'')" "PyStr ''testA''" "''ENDED''" "PyStr ''PASS''"
        example_clock2 True "Some example_path" ?tr]
    by (simp add: connected_sel conn_view_connected example_state_def isoformat_example_clock2
        conn_txn_id example_row2_def)
  show ?thesis
    by (simp add: end_test_def lazy_init_journal_def no_super_def r)
qed

lemma example_run_result:
  "run no_super no_super example_run (fresh Map.empty) =
     mk_world True (Some example_path)
       (Some \<lparr>conn_path = example_path, txn = None, closed = True\<rparr>)
       [example_path \<mapsto> \<lparr>job_info = Some [PyStr ''job-123''],
                              test_journal = Some [example_row1, example_row2]\<rparr>]
       (example_init_trace @
         [Execute insert_test_journal
            [PyStr ''testA'', PyStr ''2014-06-03T09:05:07'', PyStr ''STARTED'', PyNone], Commit,
          Execute insert_test_journal
            [PyStr ''testA'', PyStr ''2014-06-03T09:05:09.250000'', PyStr ''ENDED'', PyStr ''PASS''],
          Commit, Close])"
proof -
  have 1: "run no_super no_super example_run (fresh Map.empty) =
      snd (end_tests (snd (end_test no_super example_clock2
        (example_state(''status'' \<mapsto> PyStr ''PASS''))
        (snd (start_test no_super example_clock example_state (fresh Map.empty))))))"
    unfolding example_run_def by (simp only: run.simps notify.simps)
  show ?thesis
    unfolding 1 example_start snd_conv example_end end_tests_def shutdown_journal_def close_exact
    by (simp add: connected_def)
qed


section \<open>Instances on the example job\<close>

theorem lazy_initialization_once_witness:
  "journal_initialized (self (run no_super no_super example_run (fresh Map.empty))) \<and>
   take 9 (trace (run no_super no_super example_run (fresh Map.empty))) = example_init_trace \<and>
   drop 9 (trace (run no_super no_super example_run (fresh Map.empty))) =
     [Execute insert_test_journal
        [PyStr ''testA'', PyStr ''2014-06-03T09:05:07'', PyStr ''STARTED'', PyNone], Commit,
      Execute insert_test_journal
        [PyStr ''testA'', PyStr ''2014-06-03T09:05:09.250000'', PyStr ''ENDED'', PyStr ''PASS''],
      Commit, Close] \<and>
   map_option conn_path (journal (self (run no_super no_super example_run (fresh Map.empty)))) =
     Some example_path"
  using lazy_initialization_once [of "StartTest example_state example_clock" example_state
      example_clock "''/tmp/run1''" "PyStr ''job-123''" no_super no_super
      "[EndTest (example_state(''status'' \<mapsto> PyStr ''PASS'')) example_clock2, EndTests]" Map.empty]
  by (simp add: example_run_result example_init_trace_def)

theorem journal_path_under_logdir_witness:
  "journal_path (self (run no_super no_super example_run (fresh Map.empty))) =
     Some ''/tmp/run1/.journal.sqlite'' \<and>
   map_option conn_path (journal (self (run no_super no_super example_run (fresh Map.empty)))) =
     Some ''/tmp/run1/.journal.sqlite'' \<and>
   files (run no_super no_super example_run (fresh Map.empty)) ''/tmp/run1/.journal.sqlite'' \<noteq> None \<and>
   os_path_join ''/tmp/run1'' JOURNAL_FILENAME = ''/tmp/run1/.journal.sqlite''"
  using journal_path_under_logdir [of "StartTest example_state example_clock" example_state
      example_clock "''/tmp/run1''" "PyStr ''job-123''" no_super no_super
      "[EndTest (example_state(''status'' \<mapsto> PyStr ''PASS'')) example_clock2, EndTests]" Map.empty]
  by (simp add: example_run_def example_state_def)

theorem journal_append_only_witness:
  "consistent (fresh Map.empty) \<and>
   table_rows (test_journal (file_db (files (run no_super no_super example_run (fresh Map.empty)))
     example_path)) = [example_row1, example_row2] \<and>
   list_all (\<lambda>r. \<not> flushed r)
     (table_rows (test_journal (file_db (files (run no_super no_super example_run (fresh Map.empty)))
        example_path))) \<and>
   list_all (\<lambda>e. \<not> rewrites_rows e) (trace (run no_super no_super example_run (fresh Map.empty)))"
proof -
  have c: "consistent (fresh Map.empty)"
    by (rule consistent_fresh)
  have r: "table_rows (test_journal (file_db (files (run no_super no_super example_run (fresh Map.empty)))
     example_path)) = [example_row1, example_row2]"
    by (simp add: example_run_result file_db_def table_rows_def)
  have f: "table_rows (test_journal (file_db (files (fresh Map.empty)) example_path)) = []"
    "trace (fresh Map.empty) = []"
    by (simp_all add: fresh_def file_db_def empty_database_def table_rows_def)
  from journal_append_only [OF c, of no_super no_super example_run]
  have "(\<forall>r \<in> set (drop (length (table_rows (test_journal (file_db (files (fresh Map.empty)) example_path))))
            (table_rows (test_journal (file_db (files (run no_super no_super example_run (fresh Map.empty)))
               example_path)))). \<not> flushed r) \<and>
        (\<forall>e \<in> set (new_events (fresh Map.empty) (run no_super no_super example_run (fresh Map.empty))).
            \<not> rewrites_rows e)"
    by blast
  then have "list_all (\<lambda>r. \<not> flushed r)
     (table_rows (test_journal (file_db (files (run no_super no_super example_run (fresh Map.empty)))
        example_path))) \<and>
   list_all (\<lambda>e. \<not> rewrites_rows e) (trace (run no_super no_super example_run (fresh Map.empty)))"
    unfolding new_events_def f by (simp add: list_all_iff)
  then show ?thesis
    using c r by simp
qed

theorem job_info_at_most_one_row_witness:
  "consistent ((run no_super no_super example_run (fresh Map.empty))\<lparr>self := init\<rparr>) \<and>
   (\<forall>p. length (table_rows (job_info (file_db
      (files ((run no_super no_super example_run (fresh Map.empty))\<lparr>self := init\<rparr>)) p))) \<le> 1) \<and>
   table_rows (job_info (file_db
      (files (run no_super no_super example_run2
         ((run no_super no_super example_run (fresh Map.empty))\<lparr>self := init\<rparr>))) example_path)) =
     [PyStr ''job-123'']"
proof -
  let ?w = "(run no_super no_super example_run (fresh Map.empty))\<lparr>self := init\<rparr>"
  have c: "consistent ?w"
    by (simp add: consistent_def init_def)
  have l: "\<forall>p. length (table_rows (job_info (file_db (files ?w) p))) \<le> 1"
    by (simp add: example_run_result file_db_def table_rows_def empty_database_def)
  have j: "table_rows (job_info (file_db (files ?w) example_path)) = [PyStr ''job-123'']"
    by (simp add: example_run_result file_db_def table_rows_def)
  from job_info_at_most_one_row [OF c l, of no_super no_super example_run2]
  have "table_rows (job_info (file_db (files ?w) example_path)) \<noteq> [] \<longrightarrow>
        table_rows (job_info (file_db (files (run no_super no_super example_run2 ?w)) example_path)) =
        table_rows (job_info (file_db (files ?w) example_path))"
    by blast
  then show ?thesis
    using c l j by simp
qed

lemma init_journal_world:
  "init_journal (PyStr dir) w =
     (Return (),
      w\<lparr>self := (self w)\<lparr>journal_path := Some (os_path_join dir JOURNAL_FILENAME),
                           journal := Some (connected (os_path_join dir JOURNAL_FILENAME))\<rparr>,
        files := (files w)(os_path_join dir JOURNAL_FILENAME \<mapsto>
                   with_schema (file_db (files w) (os_path_join dir JOURNAL_FILENAME))),
        trace := trace w @ [Connect (os_path_join dir JOURNAL_FILENAME)] @
                 schema_trace (file_db (files w) (os_path_join dir JOURNAL_FILENAME)) @ [Commit]\<rparr>)"
proof -
  obtain b jp j fs tr where w: "w = mk_world b jp j fs tr"
    by (rule world_form)
  show ?thesis
    unfolding w init_journal_exact by simp
qed

lemma with_schema_idem: "with_schema (with_schema d) = with_schema d"
  by (simp add: with_schema_def table_rows_simps)

lemma state_get_ignores_status:
  "state_get (state(''status'' := v)) ''job_unique_id'' = state_get state ''job_unique_id''"
  "state_get (state(''status'' := v)) ''job_logdir'' = state_get state ''job_logdir''"
  "state_get (state(''status'' := v)) ''tagged_name'' = state_get state ''tagged_name''"
  by (simp_all add: state_get_def)

lemma record_status_started_ignores_status:
  "record_status clk (state(''status'' := v)) ''STARTED'' w = record_status clk state ''STARTED'' w"
proof -
  have "(''STARTED'' = ''ENDED'') = False" by simp
  then show ?thesis
    unfolding record_status_def state_get_ignores_status by simp
qed

lemma record_job_info_ignores_status:
  "record_job_info (state(''status'' := v)) w = record_job_info state w"
  unfolding record_job_info_def state_get_ignores_status ..

lemma lazy_init_ignores_status:
  "lazy_init_journal (state(''status'' := v)) w = lazy_init_journal state w"
  unfolding lazy_init_journal_def state_get_ignores_status record_job_info_ignores_status ..

section \<open>Creating the schema is idempotent\<close>

text \<open>
  C4. \<open>_init_journal\<close> on any world returns normally. For each of the two tables
  it first executes the catalog query \<open>PRAGMA table_info\<close>, and the CREATE TABLE
  follows exactly when the table is absent from the file. Other files are untouched; in
  the journal file both tables exist afterwards with the rows they had. Run a second time
  on its own result it changes no file and executes no CREATE TABLE.
\<close>

theorem schema_creation_idempotent:
  "fst (init_journal (PyStr dir) w) = Return () \<and>
   trace (snd (init_journal (PyStr dir) w)) =
     trace w @
     [Connect (os_path_join dir JOURNAL_FILENAME), Execute (pragma_table_info ''job_info'') []] @
     (if job_info (file_db (files w) (os_path_join dir JOURNAL_FILENAME)) = None
      then [Execute ''CREATE TABLE job_info (unique_id TEXT UNIQUE)'' []] else []) @
     [Execute (pragma_table_info ''test_journal'') []] @
     (if test_journal (file_db (files w) (os_path_join dir JOURNAL_FILENAME)) = None
      then [Execute ''CREATE TABLE test_journal (tag TEXT, time TEXT, action TEXT, status TEXT, flushed BOOLEAN DEFAULT 0)'' []]
      else []) @
     [Commit] \<and>
   (\<forall>q. q \<noteq> os_path_join dir JOURNAL_FILENAME \<longrightarrow>
        files (snd (init_journal (PyStr dir) w)) q = files w q) \<and>
   job_info (file_db (files (snd (init_journal (PyStr dir) w))) (os_path_join dir JOURNAL_FILENAME)) =
     Some (table_rows (job_info (file_db (files w) (os_path_join dir JOURNAL_FILENAME)))) \<and>
   test_journal (file_db (files (snd (init_journal (PyStr dir) w))) (os_path_join dir JOURNAL_FILENAME)) =
     Some (table_rows (test_journal (file_db (files w) (os_path_join dir JOURNAL_FILENAME)))) \<and>
   files (snd (init_journal (PyStr dir) (snd (init_journal (PyStr dir) w)))) =
     files (snd (init_journal (PyStr dir) w)) \<and>
   trace (snd (init_journal (PyStr dir) (snd (init_journal (PyStr dir) w)))) =
     trace (snd (init_journal (PyStr dir) w)) @
     [Connect (os_path_join dir JOURNAL_FILENAME), Execute (pragma_table_info ''job_info'') [],
      Execute (pragma_table_info ''test_journal'') [], Commit]"
proof -
  let ?p = "os_path_join dir JOURNAL_FILENAME"
  let ?w1 = "snd (init_journal (PyStr dir) w)"
  have f1: "files ?w1 = (files w)(?p \<mapsto> with_schema (file_db (files w) ?p))"
    and t1: "trace ?w1 = trace w @ [Connect ?p] @ schema_trace (file_db (files w) ?p) @ [Commit]"
    and r1: "fst (init_journal (PyStr dir) w) = Return ()"
    by (simp_all add: init_journal_world)
  have d1: "file_db (files ?w1) ?p = with_schema (file_db (files w) ?p)"
    by (simp add: f1 file_db_def)
  have f2: "files (snd (init_journal (PyStr dir) ?w1)) = files ?w1"
    by (simp add: init_journal_world [of dir ?w1] d1 with_schema_idem) (simp add: f1)
  have t2: "trace (snd (init_journal (PyStr dir) ?w1)) =
      trace ?w1 @ [Connect ?p, Execute (pragma_table_info ''job_info'') [],
        Execute (pragma_table_info ''test_journal'') [], Commit]"
    by (simp add: init_journal_world [of dir ?w1] d1 schema_trace_def with_schema_tables)
  show ?thesis
    using r1 f2 t2
    by (simp add: t1 f1 d1 schema_trace_def SCHEMA_def with_schema_tables file_db_def)
qed

theorem schema_creation_idempotent_witness:
  "fst (init_journal (PyStr ''/tmp/run1'') example_active) = Return () \<and>
   trace (snd (init_journal (PyStr ''/tmp/run1'') example_active)) =
     [Connect example_path, Execute (pragma_table_info ''job_info'') [],
      Execute (pragma_table_info ''test_journal'') [], Commit] \<and>
   job_info (file_db (files (snd (init_journal (PyStr ''/tmp/run1'') example_active)))
     example_path) = Some [PyStr ''job-123''] \<and>
   trace (snd (init_journal (PyStr ''/tmp/run1'') (fresh Map.empty))) =
     [Connect example_path, Execute (pragma_table_info ''job_info'') [],
      Execute ''CREATE TABLE job_info (unique_id TEXT UNIQUE)'' [],
      Execute (pragma_table_info ''test_journal'') [],
      Execute ''CREATE TABLE test_journal (tag TEXT, time TEXT, action TEXT, status TEXT, flushed BOOLEAN DEFAULT 0)'' [],
      Commit]"
  using schema_creation_idempotent [of "''/tmp/run1''" example_active]
    schema_creation_idempotent [of "''/tmp/run1''" "fresh Map.empty"]
  by (simp add: example_path_join example_active_def example_db_def file_db_def fresh_def
      empty_database_def table_rows_def)

section \<open>A start notification never reads the status\<close>

text \<open>
  C10. \<open>start_test\<close> does not depend on \<open>state['status']\<close>: setting the
  key to any value, or removing it, changes nothing as long as the base-class method does
  not react to it. A start notification without the key, on a new recorder, with the log
  directory, the job id and the tag present and the base-class method returning, returns
  normally and appends a STARTED row whose status is null.
\<close>

theorem start_test_never_reads_status:
  "(super (state(''status'' := v)) = super state \<longrightarrow>
      start_test super clk (state(''status'' := v)) w = start_test super clk state w) \<and>
   (state ''status'' = None \<and> state ''job_logdir'' = Some (PyStr dir) \<and>
    state ''job_unique_id'' = Some uid \<and> state ''tagged_name'' = Some tg \<and> super state = None \<longrightarrow>
      fst (start_test super clk state (fresh fs)) = Return () \<and>
      test_journal (file_db (files (snd (start_test super clk state (fresh fs))))
          (os_path_join dir JOURNAL_FILENAME)) =
        Some (table_rows (test_journal (file_db fs (os_path_join dir JOURNAL_FILENAME))) @
              [\<lparr>tag = tg, time = PyStr (isoformat clk), action = PyStr ''STARTED'',
                status = PyNone, flushed = False\<rparr>]))"
proof -
  have 1: "super (state(''status'' := v)) = super state \<longrightarrow>
      start_test super clk (state(''status'' := v)) w = start_test super clk state w"
  proof
    assume eq: "super (state(''status'' := v)) = super state"
    show "start_test super clk (state(''status'' := v)) w = start_test super clk state w"
      unfolding start_test_def lazy_init_ignores_status record_status_started_ignores_status eq ..
  qed
  have 2: "fst (start_test super clk state (fresh fs)) = Return () \<and>
      test_journal (file_db (files (snd (start_test super clk state (fresh fs))))
          (os_path_join dir JOURNAL_FILENAME)) =
        Some (table_rows (test_journal (file_db fs (os_path_join dir JOURNAL_FILENAME))) @
              [\<lparr>tag = tg, time = PyStr (isoformat clk), action = PyStr ''STARTED'',
                status = PyNone, flushed = False\<rparr>])"
    if a: "state ''job_logdir'' = Some (PyStr dir)" "state ''job_unique_id'' = Some uid"
      "state ''tagged_name'' = Some tg" "super state = None"
  proof -
    let ?p = "os_path_join dir JOURNAL_FILENAME"
    let ?d = "with_job uid (with_schema (file_db fs ?p))"
    let ?tr = "Connect ?p # schema_trace (file_db fs ?p) @ Commit # job_trace uid (file_db fs ?p)"
    have t: "test_journal ?d = Some (table_rows (test_journal (file_db fs ?p)))"
      by (simp add: with_job_def with_schema_def)
    have r: "record_status clk state ''STARTED''
        (mk_world True (Some ?p) (Some (connected ?p)) (fs(?p \<mapsto> ?d)) ?tr) =
       (Return (),
        mk_world True (Some ?p) (Some (connected ?p))
          (fs(?p \<mapsto> ?d\<lparr>test_journal := Some (table_rows (test_journal (file_db fs ?p)) @
              [\<lparr>tag = tg, time = PyStr (isoformat clk), action = PyStr ''STARTED'',
                status = PyNone, flushed = False\<rparr>])\<rparr>))
          (?tr @ [Execute insert_test_journal [tg, PyStr (isoformat clk), PyStr ''STARTED'', PyNone],
                  Commit]))"
      using record_status_exact [of "connected ?p" "fs(?p \<mapsto> ?d)" ?d
          "table_rows (test_journal (file_db fs ?p))" state tg "''STARTED''" PyNone clk True "Some ?p" ?tr]
      by (simp add: connected_sel conn_view_connected t a conn_txn_id)
    have l: "lazy_init_journal state (fresh fs) =
        (Return (), mk_world True (Some ?p) (Some (connected ?p)) (fs(?p \<mapsto> ?d)) ?tr)"
      unfolding fresh_form lazy_init_exact [OF a(1) a(2)] by simp
    show ?thesis
      unfolding start_test_def l
      apply (simp add: a(4) r)
      apply (simp add: file_db_def)
      done
  qed
  show ?thesis
    using 1 2 by blast
qed

theorem start_test_never_reads_status_witness:
  "no_super (example_state(''status'' := Some (PyStr ''PASS''))) = no_super example_state \<and>
   start_test no_super example_clock (example_state(''status'' := Some (PyStr ''PASS'')))
      (fresh Map.empty) =
   start_test no_super example_clock example_state (fresh Map.empty) \<and>
   example_state ''status'' = None \<and>
   fst (start_test no_super example_clock example_state (fresh Map.empty)) = Return () \<and>
   test_journal (file_db (files (snd (start_test no_super example_clock example_state
       (fresh Map.empty)))) example_path) = Some [example_row1]"
  using start_test_never_reads_status [of no_super example_state "Some (PyStr ''PASS'')"
      example_clock "fresh Map.empty" "''/tmp/run1''" "PyStr ''job-123''" "PyStr ''testA''" Map.empty]
  by (simp add: no_super_def example_state_def example_path_join file_db_def empty_database_def
      table_rows_def isoformat_example_clock example_row1_def)

section \<open>isoformat orders instants as the calendar does\<close>












lemma length_dec_pos: "0 < length (dec n)"
  by (subst dec.simps) simp

lemma length_dec_le: "n < 10 ^ w \<Longrightarrow> 0 < w \<Longrightarrow> length (dec n) \<le> w"
proof (induction w arbitrary: n)
  case 0
  then show ?case by simp
next
  case (Suc w)
  show ?case
  proof (cases "n < 10")
    case True
    then show ?thesis by (subst dec.simps) simp
  next
    case False
    then have w: "0 < w" using Suc.prems by (cases w) auto
    have "n div 10 < 10 ^ w"
      using Suc.prems by (simp add: less_mult_imp_div_less mult.commute)
    from Suc.IH [OF this w] False show ?thesis by (subst dec.simps) simp
  qed
qed






lemma grows_rows:
  assumes "db_grows P d d'"
  shows "\<exists>new. table_rows (test_journal d') = table_rows (test_journal d) @ new \<and>
               (\<forall>r \<in> set new. P (time r))"
proof -
  let ?old = "table_rows (test_journal d)" and ?all = "table_rows (test_journal d')"
  have "take (length ?old) ?all = ?old" "\<forall>r \<in> set (drop (length ?old) ?all). P (time r)"
    using assms by (simp_all add: db_grows_def)
  then have "?all = ?old @ drop (length ?old) ?all \<and> (\<forall>r \<in> set (drop (length ?old) ?all). P (time r))"
    by (metis append_take_drop_id)
  then show ?thesis by blast
qed










section \<open>The time of a row\<close>



section \<open>The row a notification writes\<close>

text \<open>
  \<open>lazy_init_journal\<close> leaves the rows of test_journal as they are, in every file;
  \<open>_record_status\<close> either raises and changes nothing, or returns after appending
  one row to the file of the recorder's connection. \<open>start_test\<close> and
  \<open>end_test\<close> are the one followed by the other, unless the initialisation or the
  base class raises first.
\<close>

lemma lazy_init_keeps_rows:
  assumes "consistent w"
  shows "journal_rows (snd (lazy_init_journal state w)) p = journal_rows w p"
proof -
  from lazy_init_step [OF assms, where state = state and P = "\<lambda>t. False"]
  have "db_grows (\<lambda>t. False) (file_db (files w) p)
          (file_db (files (snd (lazy_init_journal state w))) p)"
    by (simp add: evolves_def)
  from grows_rows [OF this] obtain new where
    n: "table_rows (test_journal (file_db (files (snd (lazy_init_journal state w))) p)) =
        table_rows (test_journal (file_db (files w) p)) @ new" "\<forall>r \<in> set new. False"
    by blast
  from n(2) have "new = []" by (cases new) auto
  with n(1) show ?thesis by (simp add: journal_rows_def)
qed

lemma file_db_upd: "file_db (fs(q \<mapsto> d)) p = (if p = q then d else file_db fs p)"
  by (simp add: file_db_def)

lemma record_status_cases:
  assumes "consistent w"
  obtains (raises) "fst (record_status clk state act w) \<noteq> Return ()"
      "snd (record_status clk state act w) = w"
    | (row) c :: connection and tg sv where "state ''tagged_name'' = Some tg"
      "(if act = ''ENDED'' then state ''status'' else Some PyNone) = Some sv"
      "fst (record_status clk state act w) = Return ()"
      "map_option conn_path (journal (self (snd (record_status clk state act w)))) =
         Some (conn_path c)"
      "\<forall>p. journal_rows (snd (record_status clk state act w)) p =
           (if p = conn_path c
            then journal_rows w p @
              [\<lparr>tag = tg, time = PyStr (isoformat clk), action = PyStr act, status = sv,
                flushed = False\<rparr>]
            else journal_rows w p)"
proof (cases "journal (self w)")
  case None
  obtain b jp j fs tr where w: "w = mk_world b jp j fs tr"
    by (rule world_form)
  obtain e where "record_status clk state act w = (Raise e, w)"
    using record_status_no_journal [of clk state act b jp fs tr] None w by auto
  then show ?thesis by (intro raises) simp_all
next
  case (Some c)
  show ?thesis
  proof (cases "closed c \<or> state ''tagged_name'' = None \<or> (act = ''ENDED'' \<and> state ''status'' = None)")
    case True
    obtain b jp j fs tr where w: "w = mk_world b jp j fs tr"
      by (rule world_form)
    from True obtain e where "record_status clk state act w = (Raise e, w)"
      using record_status_closed [of c clk state act b jp fs tr]
        record_status_missing_key [of state act clk w] Some w by auto
    then show ?thesis by (intro raises) simp_all
  next
    case False
    then obtain tg sv where k: "state ''tagged_name'' = Some tg"
      "(if act = ''ENDED'' then state ''status'' else Some PyNone) = Some sv"
      by (cases "act = ''ENDED''") auto
    from False have o: "\<not> closed c" by simp
    from assms Some have t: "txn c = None"
      by (simp add: consistent_def)
    from assms Some obtain rows where r: "test_journal (file_db (files w) (conn_path c)) = Some rows"
      by (auto simp: consistent_def)
    have v: "conn_view c (files w) = file_db (files w) (conn_path c)"
      using t by (simp add: conn_view_def file_db_def)
    have r': "test_journal (conn_view c (files w)) = Some rows"
      using r v by simp
    note x = record_status_open [OF Some o r' k, of clk]
    have 1: "fst (record_status clk state act w) = Return ()"
      by (simp add: x)
    have 2: "map_option conn_path (journal (self (snd (record_status clk state act w)))) =
              Some (conn_path c)"
      by (simp add: x)
    have f: "files (snd (record_status clk state act w)) =
        (files w)(conn_path c \<mapsto> (file_db (files w) (conn_path c))\<lparr>test_journal := Some (rows @
          [\<lparr>tag = tg, time = PyStr (isoformat clk), action = PyStr act, status = sv,
            flushed = False\<rparr>])\<rparr>)"
      by (simp add: x v)
    have 3: "\<forall>p. journal_rows (snd (record_status clk state act w)) p =
                 (if p = conn_path c
                  then journal_rows w p @
                    [\<lparr>tag = tg, time = PyStr (isoformat clk), action = PyStr act, status = sv,
                      flushed = False\<rparr>]
                  else journal_rows w p)"
      unfolding journal_rows_def f file_db_upd
      by (simp add: r table_rows_simps)
    show ?thesis
      by (rule row [OF k 1 2 3])
  qed
qed

lemma end_test_cases:
  "(fst (end_test super clk state w) \<noteq> Return () \<and>
    snd (end_test super clk state w) = snd (lazy_init_journal state w)) \<or>
   end_test super clk state w = record_status clk state ''ENDED'' (snd (lazy_init_journal state w))"
  by (simp add: end_test_def split: prod.splits outcome.splits option.splits)

lemma start_test_cases:
  "(fst (start_test super clk state w) \<noteq> Return () \<and>
    snd (start_test super clk state w) = snd (lazy_init_journal state w)) \<or>
   start_test super clk state w = record_status clk state ''STARTED'' (snd (lazy_init_journal state w))"
  by (simp add: start_test_def split: prod.splits outcome.splits option.splits)

lemma recorded_row:
  assumes "consistent w"
    and "(fst r \<noteq> Return () \<and> snd r = snd (lazy_init_journal state w)) \<or>
         r = record_status clk state act (snd (lazy_init_journal state w))"
  shows "(\<forall>p. journal_rows (snd r) p = journal_rows w p \<or>
            (\<exists>tg sv. state ''tagged_name'' = Some tg \<and>
               (if act = ''ENDED'' then state ''status'' else Some PyNone) = Some sv \<and>
               journal_rows (snd r) p = journal_rows w p @
                 [\<lparr>tag = tg, time = PyStr (isoformat clk), action = PyStr act, status = sv,
                   flushed = False\<rparr>])) \<and>
         (fst r = Return () \<longrightarrow>
            (\<exists>q tg sv. map_option conn_path (journal (self (snd r))) = Some q \<and>
               state ''tagged_name'' = Some tg \<and>
               (if act = ''ENDED'' then state ''status'' else Some PyNone) = Some sv \<and>
               journal_rows (snd r) q = journal_rows w q @
                 [\<lparr>tag = tg, time = PyStr (isoformat clk), action = PyStr act, status = sv,
                   flushed = False\<rparr>]))"
proof -
  let ?w1 = "snd (lazy_init_journal state w)"
  have c1: "consistent ?w1"
    using lazy_init_step [OF assms(1), where state = state and P = "\<lambda>t. True"] by simp
  have k: "journal_rows ?w1 p = journal_rows w p" for p
    by (rule lazy_init_keeps_rows [OF assms(1)])
  from assms(2) show ?thesis
  proof
    assume "fst r \<noteq> Return () \<and> snd r = ?w1"
    then show ?thesis by (simp add: k)
  next
    assume r: "r = record_status clk state act ?w1"
    from c1 show ?thesis
    proof (cases rule: record_status_cases [where clk = clk and state = state and act = act])
      case raises
      then show ?thesis by (simp add: r k)
    next
      case (row c tg sv)
      have s: "map_option conn_path (journal (self (snd r))) = Some (conn_path c)"
        "\<forall>p. journal_rows (snd r) p =
                 (if p = conn_path c
                  then journal_rows w p @
                    [\<lparr>tag = tg, time = PyStr (isoformat clk), action = PyStr act, status = sv,
                      flushed = False\<rparr>]
                  else journal_rows w p)"
        using row(4) row(5) by (simp_all add: r k)
      have a: "journal_rows (snd r) p = journal_rows w p \<or>
            (\<exists>tg sv. state ''tagged_name'' = Some tg \<and>
               (if act = ''ENDED'' then state ''status'' else Some PyNone) = Some sv \<and>
               journal_rows (snd r) p = journal_rows w p @
                 [\<lparr>tag = tg, time = PyStr (isoformat clk), action = PyStr act, status = sv,
                   flushed = False\<rparr>])" for p
        using row(1) row(2) s(2) by (cases "p = conn_path c") auto
      have b: "\<exists>q tg sv. map_option conn_path (journal (self (snd r))) = Some q \<and>
               state ''tagged_name'' = Some tg \<and>
               (if act = ''ENDED'' then state ''status'' else Some PyNone) = Some sv \<and>
               journal_rows (snd r) q = journal_rows w q @
                 [\<lparr>tag = tg, time = PyStr (isoformat clk), action = PyStr act, status = sv,
                   flushed = False\<rparr>]"
        using row(1) row(2) s by auto
      show ?thesis using a b by blast
    qed
  qed
qed

lemma example_lazy_init_any:
  assumes "s ''job_logdir'' = Some (PyStr ''/tmp/run1'')"
    and "s ''job_unique_id'' = Some (PyStr ''job-123'')"
  shows "lazy_init_journal s (fresh Map.empty) =
     (Return (),
      mk_world True (Some example_path) (Some (connected example_path))
        [example_path \<mapsto> \<lparr>job_info = Some [PyStr ''job-123''], test_journal = Some []\<rparr>]
        example_init_trace)"
  unfolding fresh_form lazy_init_exact [OF assms] example_path_join
  by (simp add: file_db_def empty_database_def with_schema_def with_job_def table_rows_def
      schema_trace_def job_trace_def SCHEMA_def example_init_trace_def)

lemma example_record:
  assumes "s ''tagged_name'' = Some tg"
    and "(if act = ''ENDED'' then s ''status'' else Some PyNone) = Some sv"
  shows "record_status clk s act
      (mk_world True (Some example_path) (Some (connected example_path))
         [example_path \<mapsto> \<lparr>job_info = Some js, test_journal = Some rows\<rparr>] tr) =
     (Return (),
      mk_world True (Some example_path) (Some (connected example_path))
        [example_path \<mapsto> \<lparr>job_info = Some js, test_journal = Some (rows @
           [\<lparr>tag = tg, time = PyStr (isoformat clk), action = PyStr act, status = sv,
             flushed = False\<rparr>])\<rparr>]
        (tr @ [Execute insert_test_journal [tg, PyStr (isoformat clk), PyStr act, sv], Commit]))"
  using record_status_exact [of "connected example_path"
      "[example_path \<mapsto> \<lparr>job_info = Some js, test_journal = Some rows\<rparr>]"
      "\<lparr>job_info = Some js, test_journal = Some rows\<rparr>" rows s tg act sv clk True
      "Some example_path" tr] assms
  by (simp add: connected_sel conn_view_connected conn_txn_id)

lemma example_first_end:
  "end_test no_super example_clock (example_state(''status'' \<mapsto> PyStr ''FAIL''))
      (fresh Map.empty) =
     (Return (),
      mk_world True (Some example_path) (Some (connected example_path))
        [example_path \<mapsto> \<lparr>job_info = Some [PyStr ''job-123''], test_journal = Some
           [\<lparr>tag = PyStr ''testA'', time = PyStr ''2014-06-03T09:05:07'',
             action = PyStr ''ENDED'', status = PyStr ''FAIL'', flushed = False\<rparr>]\<rparr>]
        (example_init_trace @
         [Execute insert_test_journal
            [PyStr ''testA'', PyStr ''2014-06-03T09:05:07'', PyStr ''ENDED'', PyStr ''FAIL''],
          Commit]))"
proof -
  let ?s = "example_state(''status'' \<mapsto> PyStr ''FAIL'')"
  have l: "lazy_init_journal ?s (fresh Map.empty) =
     (Return (),
      mk_world True (Some example_path) (Some (connected example_path))
        [example_path \<mapsto> \<lparr>job_info = Some [PyStr ''job-123''], test_journal = Some []\<rparr>]
        example_init_trace)"
    by (rule example_lazy_init_any) (simp_all add: example_state_def)
  have r: "record_status example_clock ?s ''ENDED''
      (mk_world True (Some example_path) (Some (connected example_path))
         [example_path \<mapsto> \<lparr>job_info = Some [PyStr ''job-123''], test_journal = Some []\<rparr>]
         example_init_trace) =
     (Return (),
      mk_world True (Some example_path) (Some (connected example_path))
        [example_path \<mapsto> \<lparr>job_info = Some [PyStr ''job-123''], test_journal = Some ([] @
           [\<lparr>tag = PyStr ''testA'', time = PyStr (isoformat example_clock),
             action = PyStr ''ENDED'', status = PyStr ''FAIL'', flushed = False\<rparr>])\<rparr>]
        (example_init_trace @
         [Execute insert_test_journal
            [PyStr ''testA'', PyStr (isoformat example_clock), PyStr ''ENDED'', PyStr ''FAIL''],
          Commit]))"
    by (rule example_record) (simp_all add: example_state_def)
  show ?thesis
    unfolding end_test_def l
    by (simp add: no_super_def r isoformat_example_clock)
qed

section \<open>Where the status goes\<close>

text \<open>
  C6. Rows of test_journal are written by \<open>_record_status\<close> only, which
  \<open>end_test\<close> calls with action ENDED and \<open>start_test\<close> with action
  STARTED. From any consistent recorder, the one that has not initialised its journal yet
  included (so the first row of a journal is covered): what \<open>end_test\<close> does to
  the test_journal rows of a file is nothing, or one appended row whose action is ENDED and
  whose status is the value of state['status'] of that call; and when \<open>end_test\<close>
  returns, that row was appended to the file of the recorder's journal. For
  \<open>start_test\<close> the same holds with action STARTED and status NULL (Python's
  None), whatever state['status'] is and whether it is there at all.
\<close>

theorem status_column_placement:
  assumes "consistent w"
  shows "(\<forall>p. journal_rows (snd (end_test super clk state w)) p = journal_rows w p \<or>
            (\<exists>tg sv. state ''tagged_name'' = Some tg \<and> state ''status'' = Some sv \<and>
               journal_rows (snd (end_test super clk state w)) p = journal_rows w p @
                 [\<lparr>tag = tg, time = PyStr (isoformat clk), action = PyStr ''ENDED'',
                   status = sv, flushed = False\<rparr>])) \<and>
         (fst (end_test super clk state w) = Return () \<longrightarrow>
            (\<exists>q tg sv. map_option conn_path (journal (self (snd (end_test super clk state w)))) =
                 Some q \<and>
               state ''tagged_name'' = Some tg \<and> state ''status'' = Some sv \<and>
               journal_rows (snd (end_test super clk state w)) q = journal_rows w q @
                 [\<lparr>tag = tg, time = PyStr (isoformat clk), action = PyStr ''ENDED'',
                   status = sv, flushed = False\<rparr>])) \<and>
         (\<forall>p. journal_rows (snd (start_test super clk state w)) p = journal_rows w p \<or>
            (\<exists>tg. state ''tagged_name'' = Some tg \<and>
               journal_rows (snd (start_test super clk state w)) p = journal_rows w p @
                 [\<lparr>tag = tg, time = PyStr (isoformat clk), action = PyStr ''STARTED'',
                   status = PyNone, flushed = False\<rparr>])) \<and>
         (fst (start_test super clk state w) = Return () \<longrightarrow>
            (\<exists>q tg. map_option conn_path (journal (self (snd (start_test super clk state w)))) =
                 Some q \<and>
               state ''tagged_name'' = Some tg \<and>
               journal_rows (snd (start_test super clk state w)) q = journal_rows w q @
                 [\<lparr>tag = tg, time = PyStr (isoformat clk), action = PyStr ''STARTED'',
                   status = PyNone, flushed = False\<rparr>]))"
proof -
  note e = recorded_row [OF assms end_test_cases [of super clk state w]]
  note s = recorded_row [OF assms start_test_cases [of super clk state w]]
  have e': "(\<forall>p. journal_rows (snd (end_test super clk state w)) p = journal_rows w p \<or>
            (\<exists>tg sv. state ''tagged_name'' = Some tg \<and> state ''status'' = Some sv \<and>
               journal_rows (snd (end_test super clk state w)) p = journal_rows w p @
                 [\<lparr>tag = tg, time = PyStr (isoformat clk), action = PyStr ''ENDED'',
                   status = sv, flushed = False\<rparr>])) \<and>
         (fst (end_test super clk state w) = Return () \<longrightarrow>
            (\<exists>q tg sv. map_option conn_path (journal (self (snd (end_test super clk state w)))) =
                 Some q \<and>
               state ''tagged_name'' = Some tg \<and> state ''status'' = Some sv \<and>
               journal_rows (snd (end_test super clk state w)) q = journal_rows w q @
                 [\<lparr>tag = tg, time = PyStr (isoformat clk), action = PyStr ''ENDED'',
                   status = sv, flushed = False\<rparr>]))"
    using e by simp
  have s': "(\<forall>p. journal_rows (snd (start_test super clk state w)) p = journal_rows w p \<or>
            (\<exists>tg. state ''tagged_name'' = Some tg \<and>
               journal_rows (snd (start_test super clk state w)) p = journal_rows w p @
                 [\<lparr>tag = tg, time = PyStr (isoformat clk), action = PyStr ''STARTED'',
                   status = PyNone, flushed = False\<rparr>])) \<and>
         (fst (start_test super clk state w) = Return () \<longrightarrow>
            (\<exists>q tg. map_option conn_path (journal (self (snd (start_test super clk state w)))) =
                 Some q \<and>
               state ''tagged_name'' = Some tg \<and>
               journal_rows (snd (start_test super clk state w)) q = journal_rows w q @
                 [\<lparr>tag = tg, time = PyStr (isoformat clk), action = PyStr ''STARTED'',
                   status = PyNone, flushed = False\<rparr>]))"
    using s by auto
  show ?thesis
    using e' s' by blast
qed

theorem status_column_placement_witness:
  "consistent (fresh Map.empty) \<and>
   fst (end_test no_super example_clock (example_state(''status'' \<mapsto> PyStr ''FAIL''))
     (fresh Map.empty)) = Return () \<and>
   journal_rows (snd (end_test no_super example_clock
       (example_state(''status'' \<mapsto> PyStr ''FAIL'')) (fresh Map.empty))) example_path =
     [\<lparr>tag = PyStr ''testA'', time = PyStr ''2014-06-03T09:05:07'', action = PyStr ''ENDED'',
       status = PyStr ''FAIL'', flushed = False\<rparr>] \<and>
   journal_rows (snd (start_test no_super example_clock example_state (fresh Map.empty)))
       example_path =
     [\<lparr>tag = PyStr ''testA'', time = PyStr ''2014-06-03T09:05:07'', action = PyStr ''STARTED'',
       status = PyNone, flushed = False\<rparr>]"
  using status_column_placement [OF consistent_fresh, of no_super example_clock
      "example_state(''status'' \<mapsto> PyStr ''FAIL'')" Map.empty] consistent_fresh [of Map.empty]
  by (simp add: example_first_end example_start journal_rows_def file_db_def table_rows_def
      example_row1_def)

section \<open>A clock that steps back\<close>



end
